theory Spec2Isabelle
  imports Complex_Main "HOL-Library.Log_Nat" "HOL-Library.Word"
begin

section \<open>Strings\<close>

text \<open>
  A JavaScript string is modelled as a \<^typ>\<open>string\<close>: a list of code units, here the
  code units \<open>0x00\<close> to \<open>0xFF\<close>. The functions below are the string methods the
  sources call, restricted to that range.
\<close>

definition codeUnit :: "char \<Rightarrow> nat" where
  "codeUnit c = of_char c"

text \<open>
  \<open>String.prototype.trim\<close> removes WhiteSpace and LineTerminator code points from both
  ends: TAB, LF, VT, FF, CR, SP and NBSP are the ones below \<open>0x100\<close>.
\<close>

definition isWhiteSpace :: "char \<Rightarrow> bool" where
  "isWhiteSpace c = (codeUnit c \<in> {9, 10, 11, 12, 13, 32, 160})"

definition trimStart :: "string \<Rightarrow> string" where
  "trimStart s = dropWhile isWhiteSpace s"

definition trim :: "string \<Rightarrow> string" where
  "trim s = rev (dropWhile isWhiteSpace (rev (dropWhile isWhiteSpace s)))"

definition startsWith :: "string \<Rightarrow> string \<Rightarrow> bool" where
  "startsWith s t = (take (length t) s = t)"

text \<open>\<open>s.includes(t)\<close>: \<open>t\<close> occurs in \<open>s\<close> as a contiguous substring.\<close>

fun includesStr :: "string \<Rightarrow> string \<Rightarrow> bool" where
  "includesStr [] t = (t = [])"
| "includesStr (x # xs) t = (startsWith (x # xs) t \<or> includesStr xs t)"

text \<open>\<open>s.split(c)\<close> for a one-character separator; \<open>"".split(c)\<close> is \<open>[""]\<close>.\<close>

fun splitStr :: "string \<Rightarrow> char \<Rightarrow> string list" where
  "splitStr [] c = [[]]"
| "splitStr (x # xs) c =
     (if x = c then [] # splitStr xs c
      else (case splitStr xs c of [] \<Rightarrow> [[x]] | p # ps \<Rightarrow> (x # p) # ps))"

text \<open>
  \<open>toLowerCase\<close> on the code units below \<open>0x100\<close>: \<open>A\<close>-\<open>Z\<close> and the Latin-1 capitals
  \<open>0xC0\<close>-\<open>0xDE\<close> (without the multiplication sign \<open>0xD7\<close>) move up by 32.
\<close>

definition lowerChar :: "char \<Rightarrow> char" where
  "lowerChar c =
     (let n = codeUnit c
      in if (65 \<le> n \<and> n \<le> 90) \<or> (192 \<le> n \<and> n \<le> 222 \<and> n \<noteq> 215)
         then char_of (n + 32) else c)"

definition toLowerCase :: "string \<Rightarrow> string" where
  "toLowerCase s = map lowerChar s"

section \<open>Regular expressions\<close>

text \<open>
  The two patterns of \<open>page.tsx\<close> use character classes, concatenation and the
  quantifiers \<open>+\<close>, \<open>*\<close>, \<open>?\<close> and \<open>{m,n}\<close>. A class is a list of inclusive ranges; a
  quantifier is \<open>Rep m n\<close> with \<open>n = None\<close> for "no upper bound".
\<close>

datatype regex =
    Cls "(char \<times> char) list"
  | Seq regex regex
  | Rep nat "nat option" regex

definition inClass :: "(char \<times> char) list \<Rightarrow> char \<Rightarrow> bool" where
  "inClass rs c = (\<exists>(lo, hi) \<in> set rs. codeUnit lo \<le> codeUnit c \<and> codeUnit c \<le> codeUnit hi)"

text \<open>
  \<open>reps f m n s\<close>: the remainders of \<open>s\<close> after between \<open>m\<close> and \<open>n\<close> rounds of \<open>f\<close>,
  where \<open>f\<close> gives the remainders after one round.
\<close>

fun reps :: "(string \<Rightarrow> string list) \<Rightarrow> nat \<Rightarrow> nat \<Rightarrow> string \<Rightarrow> string list" where
  "reps f 0 0 s = [s]"
| "reps f 0 (Suc n) s = s # concat (map (reps f 0 n) (f s))"
| "reps f (Suc m) 0 s = []"
| "reps f (Suc m) (Suc n) s = concat (map (reps f m n) (f s))"

text \<open>
  \<open>rests r s\<close>: every remainder of \<open>s\<close> after a prefix that matches \<open>r\<close>, as a
  backtracking matcher finds them. An unbounded quantifier needs at most \<open>length s\<close>
  rounds beyond its minimum, since a round that consumes nothing changes nothing.
\<close>

fun rests :: "regex \<Rightarrow> string \<Rightarrow> string list" where
  "rests (Cls rs) s = (case s of [] \<Rightarrow> [] | c # cs \<Rightarrow> if inClass rs c then [cs] else [])"
| "rests (Seq a b) s = concat (map (\<lambda>t. rests b t) (rests a s))"
| "rests (Rep m None a) s = reps (\<lambda>t. rests a t) m (m + length s) s"
| "rests (Rep m (Some n) a) s = reps (\<lambda>t. rests a t) m n s"

text \<open>\<open>/^r$/.test(s)\<close>: some way of matching \<open>r\<close> consumes all of \<open>s\<close>.\<close>

definition regexTest :: "regex \<Rightarrow> string \<Rightarrow> bool" where
  "regexTest r s = ([] \<in> set (rests r s))"

definition rchr :: "char \<Rightarrow> regex" where
  "rchr c = Cls [(c, c)]"

definition rplus :: "regex \<Rightarrow> regex" where
  "rplus r = Rep 1 None r"

definition rstar :: "regex \<Rightarrow> regex" where
  "rstar r = Rep 0 None r"

definition ropt :: "regex \<Rightarrow> regex" where
  "ropt r = Rep 0 (Some 1) r"

section \<open>Recipient classification (page.tsx)\<close>

text \<open>\<open>/^[1-9A-HJ-NP-Za-km-z]{32,44}$/\<close>\<close>

definition base58Class :: "(char \<times> char) list" where
  "base58Class =
     [(CHR ''1'', CHR ''9''), (CHR ''A'', CHR ''H''), (CHR ''J'', CHR ''N''),
      (CHR ''P'', CHR ''Z''), (CHR ''a'', CHR ''k''), (CHR ''m'', CHR ''z'')]"

definition solanaAddressRegex :: regex where
  "solanaAddressRegex = Rep 32 (Some 44) (Cls base58Class)"

definition isValidWalletAddress :: "string \<Rightarrow> bool" where
  "isValidWalletAddress address = regexTest solanaAddressRegex (trim address)"

text \<open>
  The e-mail pattern of \<open>isValidEmail\<close>. Its local-part class is
  \<open>[a-zA-Z0-9.!#$%&'*+/=?^_`{|}~-]\<close>; the quote \<open>0x27\<close>, the caret \<open>0x5E\<close>, the
  backquote \<open>0x60\<close> and the bar \<open>0x7C\<close> are written by code.
\<close>

definition alnum :: "(char \<times> char) list" where
  "alnum = [(CHR ''a'', CHR ''z''), (CHR ''A'', CHR ''Z''), (CHR ''0'', CHR ''9'')]"

definition localClass :: "(char \<times> char) list" where
  "localClass = alnum @ map (\<lambda>c. (c, c))
     [CHR ''.'', CHR ''!'', CHR ''#'', CHR ''$'', CHR ''%'', CHR ''&'', CHR 0x27,
      CHR ''*'', CHR ''+'', CHR ''/'', CHR ''='', CHR ''?'', CHR 0x5E, CHR ''_'',
      CHR 0x60, CHR ''{'', CHR 0x7C, CHR ''}'', CHR ''~'', CHR ''-'']"

text \<open>\<open>[a-zA-Z0-9](?:[a-zA-Z0-9-]{0,61}[a-zA-Z0-9])?\<close>\<close>

definition labelRegex :: regex where
  "labelRegex =
     Seq (Cls alnum)
         (ropt (Seq (Rep 0 (Some 61) (Cls (alnum @ [(CHR ''-'', CHR ''-'')]))) (Cls alnum)))"

definition emailRegex :: regex where
  "emailRegex =
     Seq (rplus (Cls localClass))
         (Seq (rchr CHR ''@'')
              (Seq labelRegex (rstar (Seq (rchr CHR ''.'') labelRegex))))"

definition isValidEmail :: "string \<Rightarrow> bool" where
  "isValidEmail email =
     (let trimmedEmail = trim email
      in if length trimmedEmail > 254 then False
         else if length (splitStr trimmedEmail CHR ''@'') \<noteq> 2 then False
         else regexTest emailRegex trimmedEmail)"

datatype inputType = Address | Email | Invalid

definition detectInputType :: "string \<Rightarrow> inputType" where
  "detectInputType input =
     (let trimmed = trim input
      in if trimmed = [] then Invalid
         else if includesStr trimmed ''@'' then (if isValidEmail trimmed then Email else Invalid)
         else (if isValidWalletAddress trimmed then Address else Invalid))"

section \<open>Numbers\<close>

text \<open>
  A JavaScript number is an IEEE 754 binary64 value: NaN, an infinity, or a finite
  value, kept here as the rational it denotes. The sign of a zero is not kept; no
  function below tells \<open>+0\<close> from \<open>-0\<close>.
\<close>

datatype number = NaN | PosInf | NegInf | Fin rat

definition pow2 :: "int \<Rightarrow> rat" where
  "pow2 k = (if 0 \<le> k then 2 ^ nat k else 1 / 2 ^ nat (- k))"

definition pow10 :: "int \<Rightarrow> rat" where
  "pow10 k = (if 0 \<le> k then 10 ^ nat k else 1 / 10 ^ nat (- k))"

text \<open>
  \<open>ilog2 a\<close> is the binary exponent of a positive \<open>a\<close>: the \<open>e\<close> with
  \<open>2^e \<le> a < 2^(e+1)\<close>.
\<close>

definition ilog2 :: "rat \<Rightarrow> int" where
  "ilog2 a = (if 1 \<le> a then bitlen \<lfloor>a\<rfloor> - 1 else - bitlen (\<lceil>1 / a\<rceil> - 1))"

definition roundHalfEven :: "rat \<Rightarrow> int" where
  "roundHalfEven x =
     (let f = \<lfloor>x\<rfloor>; r = x - of_int f
      in if r < 1 / 2 then f
         else if 1 / 2 < r then f + 1
         else if even f then f else f + 1)"

text \<open>
  The Number value for a real \<open>x\<close>: the nearest binary64 value, ties to the even
  significand. The significand has 53 bits, exponents below \<open>-1022\<close> share the
  subnormal spacing \<open>2^-1074\<close>, and a result of \<open>2^1024\<close> or more is an infinity.
\<close>

definition Number_of :: "rat \<Rightarrow> number" where
  "Number_of x =
     (if x = 0 then Fin 0
      else let a = \<bar>x\<bar>;
               e = max (ilog2 a) (- 1022);
               q = pow2 (e - 52);
               y = of_int (roundHalfEven (a / q)) * q
           in if 2 ^ 1024 \<le> y then (if x < 0 then NegInf else PosInf)
              else Fin (if x < 0 then - y else y))"

definition isNaN :: "number \<Rightarrow> bool" where
  "isNaN x = (x = NaN)"

text \<open>\<open>x <= 0\<close>; a comparison with NaN is false.\<close>

definition leZero :: "number \<Rightarrow> bool" where
  "leZero x = (case x of NaN \<Rightarrow> False | PosInf \<Rightarrow> False | NegInf \<Rightarrow> True | Fin v \<Rightarrow> v \<le> 0)"

text \<open>\<open>x * c\<close> and \<open>x / c\<close> for a positive finite constant \<open>c\<close>.\<close>

definition timesConst :: "number \<Rightarrow> rat \<Rightarrow> number" where
  "timesConst x c = (case x of Fin v \<Rightarrow> Number_of (v * c) | _ \<Rightarrow> x)"

definition divideConst :: "number \<Rightarrow> rat \<Rightarrow> number" where
  "divideConst x c = (case x of Fin v \<Rightarrow> Number_of (v / c) | _ \<Rightarrow> x)"

definition Math_floor :: "number \<Rightarrow> number" where
  "Math_floor x = (case x of Fin v \<Rightarrow> Fin (of_int \<lfloor>v\<rfloor>) | _ \<Rightarrow> x)"

text \<open>
  \<open>BigInt(x)\<close> for a number \<open>x\<close>: a RangeError (here \<open>Inl\<close> with its message)
  unless \<open>x\<close> is an integral finite value. For a finite value that is not integral
  the engine's message names the value; the model's does not.
\<close>

definition BigInt :: "number \<Rightarrow> string + int" where
  "BigInt x =
     (case x of
        Fin v \<Rightarrow> if of_int \<lfloor>v\<rfloor> = v then Inr \<lfloor>v\<rfloor>
                 else Inl ''The number cannot be converted to a BigInt because it is not an integer''
      | NaN \<Rightarrow> Inl ''The number NaN cannot be converted to a BigInt because it is not an integer''
      | PosInf \<Rightarrow>
          Inl ''The number Infinity cannot be converted to a BigInt because it is not an integer''
      | NegInf \<Rightarrow>
          Inl ''The number -Infinity cannot be converted to a BigInt because it is not an integer'')"

subsection \<open>parseFloat\<close>

definition isDigit :: "char \<Rightarrow> bool" where
  "isDigit c = (48 \<le> codeUnit c \<and> codeUnit c \<le> 57)"

definition digitsValue :: "string \<Rightarrow> nat" where
  "digitsValue ds = foldl (\<lambda>a c. 10 * a + (codeUnit c - 48)) 0 ds"

text \<open>
  An optional sign at the front of \<open>s\<close>: whether it is a minus, and what follows it.
\<close>

definition takeSign :: "string \<Rightarrow> bool \<times> string" where
  "takeSign s =
     (case s of
        [] \<Rightarrow> (False, s)
      | c # r \<Rightarrow> if c = CHR ''-'' then (True, r)
                 else if c = CHR ''+'' then (False, r)
                 else (False, s))"

text \<open>
  The value of an ExponentPart at the front of \<open>s\<close> (\<open>e\<close> or \<open>E\<close>, an optional sign, at
  least one digit), and 0 when there is none.
\<close>

definition parseExponent :: "string \<Rightarrow> int" where
  "parseExponent s =
     (case s of
        [] \<Rightarrow> 0
      | c # r \<Rightarrow>
          if c = CHR ''e'' \<or> c = CHR ''E''
          then (let (neg, r') = takeSign r; ds = takeWhile isDigit r'
                in if ds = [] then 0
                   else if neg then - int (digitsValue ds) else int (digitsValue ds))
          else 0)"

text \<open>
  The longest prefix of \<open>s\<close> that is a StrUnsignedDecimalLiteral other than
  \<open>Infinity\<close> (digits, an optional fraction, an optional exponent, with a digit before
  or after the point), as its exact value; \<open>None\<close> when there is no such prefix.
\<close>

definition parseUnsigned :: "string \<Rightarrow> rat option" where
  "parseUnsigned s =
     (let ip = takeWhile isDigit s;
          r1 = dropWhile isDigit s;
          (fp, r2) = (case r1 of
                        [] \<Rightarrow> ([], r1)
                      | c # r \<Rightarrow> if c = CHR ''.''
                                 then (takeWhile isDigit r, dropWhile isDigit r)
                                 else ([], r1))
      in if ip = [] \<and> fp = [] then None
         else Some (of_nat (digitsValue (ip @ fp)) * pow10 (parseExponent r2 - int (length fp))))"

text \<open>
  The exact value of the longest prefix of \<open>s\<close>, after leading white space, that is a
  signed decimal literal.
\<close>

definition mathValue :: "string \<Rightarrow> rat option" where
  "mathValue s =
     (let (neg, u) = takeSign (trimStart s)
      in map_option (\<lambda>v. if neg then - v else v) (parseUnsigned u))"

definition parseFloat :: "string \<Rightarrow> number" where
  "parseFloat s =
     (let (neg, u) = takeSign (trimStart s)
      in if startsWith u ''Infinity'' then (if neg then NegInf else PosInf)
         else (case mathValue s of None \<Rightarrow> NaN | Some v \<Rightarrow> Number_of v))"

subsection \<open>toFixed\<close>

fun digitsOfNat :: "nat \<Rightarrow> string" where
  "digitsOfNat n =
     (if n < 10 then [char_of (48 + n)]
      else digitsOfNat (n div 10) @ [char_of (48 + n mod 10)])"

text \<open>
  \<open>x.toFixed(f)\<close>: the integer \<open>n\<close> nearest to \<open>x * 10^f\<close> (the larger one on a tie,
  after the sign has been taken off), printed with \<open>f\<close> digits after the point. From
  \<open>10^21\<close> on JavaScript prints the shortest exponent form that reads back as \<open>x\<close>;
  the model prints the integer that \<open>x\<close> is, which reads back as \<open>x\<close> as well.
\<close>

definition toFixed :: "number \<Rightarrow> nat \<Rightarrow> string" where
  "toFixed x f =
     (case x of
        NaN \<Rightarrow> ''NaN''
      | PosInf \<Rightarrow> ''Infinity''
      | NegInf \<Rightarrow> ''-Infinity''
      | Fin v \<Rightarrow>
          (let a = \<bar>v\<bar>; sgn = (if v < 0 then ''-'' else [])
           in if 10 ^ 21 \<le> a then sgn @ digitsOfNat (nat \<lfloor>a\<rfloor>)
              else let m = digitsOfNat (nat \<lfloor>a * 10 ^ f + 1 / 2\<rfloor>);
                       m' = replicate (Suc f - length m) CHR ''0'' @ m;
                       k = length m'
                   in if f = 0 then sgn @ m'
                      else sgn @ take (k - f) m' @ ''.'' @ drop (k - f) m'))"

section \<open>Values\<close>

text \<open>
  The values a \<open>catch\<close> clause or a JSON body can hold. \<open>JError m\<close> is an instance
  of \<open>Error\<close> with message \<open>m\<close>; \<open>JObject\<close> is a plain object, as a list of its
  properties.
\<close>

datatype jsval =
    JUndefined
  | JNull
  | JBool bool
  | JNumber number
  | JString string
  | JError string
  | JArray "jsval list"
  | JObject "(string \<times> jsval) list"

text \<open>What \<open>!v\<close> negates: \<open>undefined\<close>, \<open>null\<close>, \<open>false\<close>, 0, NaN and \<open>""\<close> are falsy.\<close>

definition truthy :: "jsval \<Rightarrow> bool" where
  "truthy v =
     (case v of
        JUndefined \<Rightarrow> False
      | JNull \<Rightarrow> False
      | JBool b \<Rightarrow> b
      | JNumber x \<Rightarrow> x \<noteq> NaN \<and> x \<noteq> Fin 0
      | JString s \<Rightarrow> s \<noteq> []
      | _ \<Rightarrow> True)"

text \<open>\<open>a || b\<close>\<close>

definition orElse :: "jsval \<Rightarrow> jsval \<Rightarrow> jsval" where
  "orElse a b = (if truthy a then a else b)"

text \<open>
  \<open>v.k\<close> for one of the property names used below (\<open>message\<close>, \<open>solBalance\<close>,
  \<open>usdcBalance\<close>): a TypeError (\<open>None\<close>) on \<open>undefined\<close> and \<open>null\<close>, the property or
  \<open>undefined\<close> on an object, \<open>undefined\<close> on a primitive value or an array.
\<close>

definition getProp :: "jsval \<Rightarrow> string \<Rightarrow> jsval option" where
  "getProp v k =
     (case v of
        JUndefined \<Rightarrow> None
      | JNull \<Rightarrow> None
      | JObject kvs \<Rightarrow> Some (case map_of kvs k of None \<Rightarrow> JUndefined | Some w \<Rightarrow> w)
      | JError m \<Rightarrow> Some (if k = ''message'' then JString m else JUndefined)
      | _ \<Rightarrow> Some JUndefined)"

section \<open>The insufficient-gas classifier (page.tsx)\<close>

definition insufficientGasKeywords :: "string list" where
  "insufficientGasKeywords =
     [''insufficient funds'', ''insufficient balance'', ''insufficient lamports'',
      ''not enough'', ''insufficient sol'']"

definition isInsufficientGasError :: "jsval \<Rightarrow> bool" where
  "isInsufficientGasError error =
     (case error of
        JString e \<Rightarrow>
          (let errorLower = toLowerCase e
           in list_ex (\<lambda>keyword. includesStr errorLower keyword) insufficientGasKeywords)
      | JError m \<Rightarrow>
          (let errorMessage = toLowerCase m
           in list_ex (\<lambda>keyword. includesStr errorMessage keyword) insufficientGasKeywords)
      | _ \<Rightarrow> False)"

section \<open>The signing step of handleSend (page.tsx)\<close>

text \<open>
  The signer's answer to \<open>signTransaction\<close>. A field that is absent is \<open>None\<close>.
\<close>

record signTxResponse =
  status :: "string option"
  signature :: "string option"

text \<open>
  \<open>Buffer.from(s, "hex")\<close> of the runtime reads \<open>s\<close> two characters at a time, one
  byte for each pair of hex digits. It stops at the first pair that is not two hex
  digits, leaves a last single character out, and returns the bytes read so far; it
  never throws.
\<close>

definition unhex :: "char \<Rightarrow> nat option" where
  "unhex c =
     (let n = codeUnit c
      in if 48 \<le> n \<and> n \<le> 57 then Some (n - 48)
         else if 97 \<le> n \<and> n \<le> 102 then Some (n - 87)
         else if 65 \<le> n \<and> n \<le> 70 then Some (n - 55)
         else None)"

fun bufferFromHex :: "string \<Rightarrow> 8 word list" where
  "bufferFromHex (c # d # rest) =
     (case unhex c of
        None \<Rightarrow> []
      | Some a \<Rightarrow>
          (case unhex d of
             None \<Rightarrow> []
           | Some b \<Rightarrow> of_nat (16 * a + b) # bufferFromHex rest))"
| "bufferFromHex s = []"

text \<open>
  The calls into the ledger library that stay parameters. Each may throw; \<open>Inl m\<close> is
  an error thrown with message \<open>m\<close>. \<open>newPublicKey\<close> is the \<open>PublicKey\<close>
  constructor; \<open>setSignature\<close> is what \<open>addSignature\<close> does once it has accepted the
  signature: it looks for the key among the required signers, throws when it is not
  one, and stores the signature in that signer's slot.
\<close>

record ('tx, 'key) signingLib =
  newPublicKey :: "string \<Rightarrow> string + 'key"
  setSignature :: "'tx \<Rightarrow> 'key \<Rightarrow> 8 word list \<Rightarrow> string + 'tx"

text \<open>
  Modelled from the spec: \<open>addSignature\<close> is a method of the ledger library's
  transaction, which is not in the repository. "rawBytes length must match the ledger's
  signature size or the envelope is invalid": the method throws unless it is given 64
  bytes.
\<close>

definition addSignature ::
  "('tx, 'key) signingLib \<Rightarrow> 'tx \<Rightarrow> 'key \<Rightarrow> 8 word list \<Rightarrow> string + 'tx" where
  "addSignature lib transaction pk signatureBytes =
     (if length signatureBytes \<noteq> 64 then Inl ''Signature must be 64 bytes long''
      else setSignature lib transaction pk signatureBytes)"

text \<open>\<open>signed?.status || "UNKNOWN"\<close>\<close>

definition statusOrUnknown :: "signTxResponse option \<Rightarrow> string" where
  "statusOrUnknown signedTx =
     (case signedTx of
        None \<Rightarrow> ''UNKNOWN''
      | Some r \<Rightarrow> (case status r of
                     None \<Rightarrow> ''UNKNOWN''
                   | Some s \<Rightarrow> if s = [] then ''UNKNOWN'' else s))"

text \<open>
  Lines 598 to 627 of \<open>handleSend\<close>: from the signer's answer \<open>signedTx\<close> (\<open>None\<close> when
  it is \<open>null\<close> or \<open>undefined\<close>) to the transaction with its signature added, or to the
  message of the error thrown.
\<close>

definition signStep ::
  "('tx, 'key) signingLib \<Rightarrow> 'tx \<Rightarrow> string \<Rightarrow> signTxResponse option \<Rightarrow> string + 'tx" where
  "signStep lib transaction walletAddress signedTx =
     (if signedTx = None \<or> Option.bind signedTx status \<noteq> Some ''SUCCESS''
      then (let st = statusOrUnknown signedTx
            in if st = ''USER_REQUEST_DENIED'' \<or> st = ''USER_CONSENT_DENIED''
               then Inl ''User denied transaction signing''
               else Inl (''Transaction signing failed ('' @ st @ '')''))
      else (case Option.bind signedTx signature of
              None \<Rightarrow> Inl ''MetaKeep did not return a transaction signature''
            | Some sigStr \<Rightarrow>
                if sigStr = [] then Inl ''MetaKeep did not return a transaction signature''
                else (let signatureBytes =
                            (if startsWith sigStr ''0x''
                             then bufferFromHex (drop 2 sigStr)
                             else bufferFromHex sigStr)
                      in (case newPublicKey lib walletAddress of
                            Inl e \<Rightarrow> Inl e
                          | Inr pk \<Rightarrow> addSignature lib transaction pk signatureBytes))))"

section \<open>The transfer route (api/token-transfer/route.ts)\<close>

type_synonym pubkey = string

datatype instruction =
    CreateAssociatedTokenAccount pubkey pubkey pubkey pubkey
  | Transfer pubkey pubkey pubkey "64 word"

record message =
  payerKey :: pubkey
  recentBlockhash :: string
  instructions :: "instruction list"

text \<open>
  The ledger client and the token library, as the routes call them; \<open>Inl m\<close> is an
  error thrown with message \<open>m\<close>. \<open>getAccount\<close> gives the token amount of an
  account, \<open>getBalance\<close> the lamports of an address, both unsigned 64-bit;
  \<open>serialize\<close> stands for compiling the message, wrapping it in a versioned
  transaction, serializing it and encoding the bytes in base64.
\<close>

record solana =
  PublicKey :: "string \<Rightarrow> string + pubkey"
  getAssociatedTokenAddress :: "pubkey \<Rightarrow> pubkey \<Rightarrow> string + pubkey"
  getAccount :: "pubkey \<Rightarrow> string + 64 word"
  getBalance :: "pubkey \<Rightarrow> string + 64 word"
  getLatestBlockhash :: "string + string"
  serialize :: "message \<Rightarrow> string + string"

datatype body =
    ErrorBody string "string option"
  | TransactionBody string string
  | BalancesBody number number

datatype response = Response nat body

record transferRequest =
  fromAddress :: "string option"
  toAddress :: "string option"
  amount :: "string option"

text \<open>\<open>!s\<close> for a field that is a string or absent.\<close>

definition missing :: "string option \<Rightarrow> bool" where
  "missing s = (s = None \<or> s = Some [])"

text \<open>
  The token library writes the amount of a transfer into an unsigned 64-bit field. Its
  writer prints the amount in hex and keeps the first 16 digits: an amount below
  \<open>2^64\<close> is written as it is, a larger one loses its last hex digits.
\<close>

function u64Digits :: "int \<Rightarrow> int" where
  "u64Digits n = (if n < 2 ^ 64 then n else u64Digits (n div 16))"
  by pat_completeness auto
termination
  by (relation "measure nat") auto

definition writeU64 :: "int \<Rightarrow> 64 word" where
  "writeU64 n = of_int (u64Digits n)"

text \<open>
  \<open>createTransferInstruction\<close> of the token library encodes \<open>BigInt(amount)\<close> into the
  instruction data, so it throws where \<open>BigInt\<close> does. The instruction is kept as its
  accounts and the 64-bit amount written.
\<close>

definition createTransferInstruction ::
  "pubkey \<Rightarrow> pubkey \<Rightarrow> pubkey \<Rightarrow> number \<Rightarrow> string + instruction" where
  "createTransferInstruction source destination owner amt =
     (case BigInt amt of
        Inl e \<Rightarrow> Inl e
      | Inr n \<Rightarrow> Inr (Transfer source destination owner (writeU64 n)))"

text \<open>\<open>Math.floor(amountNum * 10 ** 6)\<close>\<close>

definition transferAmount :: "number \<Rightarrow> number" where
  "transferAmount amountNum = Math_floor (timesConst amountNum (10 ^ 6))"

text \<open>
  The body of \<open>POST\<close> up to the message it compiles. The outer sum is the \<open>try\<close>:
  \<open>Inl m\<close> is an error thrown with message \<open>m\<close>; inside, \<open>Inl r\<close> is a response
  returned early and \<open>Inr msg\<close> the message built.
\<close>

definition buildTransfer ::
  "solana \<Rightarrow> string \<Rightarrow> transferRequest \<Rightarrow> string + (response + message)" where
  "buildTransfer rpc USDC_MINT_ADDRESS req =
     (if missing (fromAddress req) \<or> missing (toAddress req) \<or> missing (amount req)
      then Inr (Inl (Response 400 (ErrorBody ''Missing required fields: from, to, amount'' None)))
      else
       (case PublicKey rpc (the (fromAddress req)) of
          Inl _ \<Rightarrow> Inr (Inl (Response 400 (ErrorBody ''Invalid Solana address format'' None)))
        | Inr fromPublicKey \<Rightarrow>
       (case PublicKey rpc (the (toAddress req)) of
          Inl _ \<Rightarrow> Inr (Inl (Response 400 (ErrorBody ''Invalid Solana address format'' None)))
        | Inr toPublicKey \<Rightarrow>
       (let amountNum = parseFloat (the (amount req))
        in if isNaN amountNum \<or> leZero amountNum
           then Inr (Inl (Response 400 (ErrorBody ''Invalid amount'' None)))
           else if USDC_MINT_ADDRESS = []
           then Inr (Inl (Response 500 (ErrorBody ''USDC mint address not configured''
                   (Some ''Set NEXT_PUBLIC_USDC_MINT_ADDRESS to a valid mint address.''))))
           else
            (case PublicKey rpc USDC_MINT_ADDRESS of
               Inl e \<Rightarrow> Inl e
             | Inr usdcMint \<Rightarrow>
            (case getAssociatedTokenAddress rpc usdcMint fromPublicKey of
               Inl e \<Rightarrow> Inl e
             | Inr fromTokenAccount \<Rightarrow>
            (case getAssociatedTokenAddress rpc usdcMint toPublicKey of
               Inl e \<Rightarrow> Inl e
             | Inr toTokenAccount \<Rightarrow>
            (let recipientAccountExists =
                   (case getAccount rpc toTokenAccount of Inl _ \<Rightarrow> False | Inr _ \<Rightarrow> True);
                 created =
                   (if \<not> recipientAccountExists
                    then [CreateAssociatedTokenAccount fromPublicKey toTokenAccount
                            toPublicKey usdcMint]
                    else [])
             in (case createTransferInstruction fromTokenAccount toTokenAccount fromPublicKey
                        (transferAmount amountNum) of
                   Inl e \<Rightarrow> Inl e
                 | Inr transfer \<Rightarrow>
                (case getLatestBlockhash rpc of
                   Inl e \<Rightarrow> Inl e
                 | Inr blockhash \<Rightarrow>
                     Inr (Inr \<lparr>payerKey = fromPublicKey, recentBlockhash = blockhash,
                               instructions = created @ [transfer]\<rparr>)))))))))))"

definition POST :: "solana \<Rightarrow> string \<Rightarrow> transferRequest \<Rightarrow> response" where
  "POST rpc USDC_MINT_ADDRESS req =
     (case (case buildTransfer rpc USDC_MINT_ADDRESS req of
              Inl e \<Rightarrow> Inl e
            | Inr (Inl r) \<Rightarrow> Inr r
            | Inr (Inr messageV0) \<Rightarrow>
                (case serialize rpc messageV0 of
                   Inl e \<Rightarrow> Inl e
                 | Inr serializedTransaction \<Rightarrow>
                     Inr (Response 200 (TransactionBody serializedTransaction
                            (''Transfer '' @ the (amount req) @ '' USDC''))))) of
        Inl e \<Rightarrow> Response 500 (ErrorBody ''Failed to create transfer transaction'' (Some e))
      | Inr r \<Rightarrow> r)"

section \<open>The balance route and the balance refresh\<close>

definition LAMPORTS_PER_SOL :: rat where
  "LAMPORTS_PER_SOL = 1000000000"

text \<open>The route \<open>GET /api/balances\<close>; \<open>address\<close> is the query parameter, if present.\<close>

definition GET :: "solana \<Rightarrow> string \<Rightarrow> string option \<Rightarrow> response" where
  "GET rpc USDC_MINT_ADDRESS address =
     (case (if missing address
            then Inr (Response 400 (ErrorBody ''Missing wallet address'' None))
            else
             (case PublicKey rpc (the address) of
                Inl _ \<Rightarrow> Inr (Response 400 (ErrorBody ''Invalid Solana address'' None))
              | Inr publicKey \<Rightarrow>
                  if USDC_MINT_ADDRESS = []
                  then Inr (Response 500 (ErrorBody ''USDC mint address not configured''
                         (Some ''Set NEXT_PUBLIC_USDC_MINT_ADDRESS to a valid mint address.'')))
                  else
                   (case PublicKey rpc USDC_MINT_ADDRESS of
                      Inl e \<Rightarrow> Inl e
                    | Inr usdcMint \<Rightarrow>
                   (case getBalance rpc publicKey of
                      Inl e \<Rightarrow> Inl e
                    | Inr solBalanceLamports \<Rightarrow>
                   (let solBalance =
                          divideConst (Number_of (of_nat (unat solBalanceLamports)))
                            LAMPORTS_PER_SOL
                    in (case getAssociatedTokenAddress rpc usdcMint publicKey of
                          Inl e \<Rightarrow> Inl e
                        | Inr tokenAccountAddress \<Rightarrow>
                            (let usdcBalance =
                                   (case getAccount rpc tokenAccountAddress of
                                      Inl _ \<Rightarrow> Fin 0
                                    | Inr amt \<Rightarrow>
                                        divideConst (Number_of (of_nat (unat amt))) (10 ^ 6))
                             in Inr (Response 200
                                      (BalancesBody (parseFloat (toFixed solBalance 3))
                                                    (parseFloat (toFixed usdcBalance 2)))))))))))
      of
        Inl e \<Rightarrow> Response 500 (ErrorBody ''Failed to fetch balances'' (Some e))
      | Inr r \<Rightarrow> r)"

text \<open>
  The JSON text of a body, parsed again. \<open>JSON.stringify\<close> writes a NaN or an
  infinity as \<open>null\<close> and leaves an absent property out.
\<close>

definition jsonNumber :: "number \<Rightarrow> jsval" where
  "jsonNumber x = (case x of Fin v \<Rightarrow> JNumber x | _ \<Rightarrow> JNull)"

definition jsonOfBody :: "body \<Rightarrow> jsval" where
  "jsonOfBody b =
     (case b of
        ErrorBody e m \<Rightarrow>
          JObject ((''error'', JString e) #
                   (case m of None \<Rightarrow> [] | Some t \<Rightarrow> [(''message'', JString t)]))
      | TransactionBody t m \<Rightarrow> JObject [(''transaction'', JString t), (''message'', JString m)]
      | BalancesBody s u \<Rightarrow>
          JObject [(''solBalance'', jsonNumber s), (''usdcBalance'', jsonNumber u)])"

text \<open>
  What \<open>fetch\<close> resolves to: the status and \<open>json\<close>, which is \<open>None\<close> when
  \<open>response.json()\<close> rejects.
\<close>

record httpResponse =
  httpStatus :: nat
  json :: "jsval option"

definition ok :: "httpResponse \<Rightarrow> bool" where
  "ok r = (200 \<le> httpStatus r \<and> httpStatus r \<le> 299)"

record balances =
  solBalance :: jsval
  usdcBalance :: jsval

text \<open>
  The \<open>try\<close> block of \<open>fetchBalances\<close>; \<open>None\<close> is a throw, whose error the \<open>catch\<close>
  clause only logs. \<open>fetched\<close> is \<open>None\<close> when \<open>fetch\<close> itself rejects.
\<close>

definition fetchBalancesTry :: "httpResponse option \<Rightarrow> balances option" where
  "fetchBalancesTry fetched =
     (case fetched of
        None \<Rightarrow> None
      | Some response \<Rightarrow>
          if \<not> ok response then None
          else (case json response of
                  None \<Rightarrow> None
                | Some balanceData \<Rightarrow>
                    (case getProp balanceData ''solBalance'' of
                       None \<Rightarrow> None
                     | Some s \<Rightarrow>
                         (case getProp balanceData ''usdcBalance'' of
                            None \<Rightarrow> None
                          | Some u \<Rightarrow>
                              Some \<lparr>solBalance = orElse s (JNumber (Fin 0)),
                                    usdcBalance = orElse u (JNumber (Fin 0))\<rparr>))))"

definition fetchBalances :: "httpResponse option \<Rightarrow> balances" where
  "fetchBalances fetched =
     (case fetchBalancesTry fetched of
        None \<Rightarrow> \<lparr>solBalance = JNumber (Fin 0), usdcBalance = JNumber (Fin 0)\<rparr>
      | Some b \<Rightarrow> b)"

text \<open>The answer of the balance route as \<open>fetch\<close> hands it to the page.\<close>

definition httpOf :: "response \<Rightarrow> httpResponse" where
  "httpOf r = (case r of Response st b \<Rightarrow> \<lparr>httpStatus = st, json = Some (jsonOfBody b)\<rparr>)"

text \<open>
  A balance refresh: the page fetches the route, which answers from the ledger.
\<close>

definition refresh :: "solana \<Rightarrow> string \<Rightarrow> string option \<Rightarrow> balances" where
  "refresh rpc mint address = fetchBalances (Some (httpOf (GET rpc mint address)))"

section \<open>Sample ledgers\<close>

text \<open>
  Two ledgers on which every call succeeds, except that on the first no token account
  exists. They accept every string as a key and derive a token account's address from
  its owner alone.
\<close>

definition ledgerWithoutAccounts :: solana where
  "ledgerWithoutAccounts =
     \<lparr>PublicKey = (\<lambda>s. Inr s),
      getAssociatedTokenAddress = (\<lambda>mint owner. Inr (''ata-'' @ owner)),
      getAccount = (\<lambda>a. Inl ''TokenAccountNotFoundError''),
      getBalance = (\<lambda>a. Inr 2000000000),
      getLatestBlockhash = Inr ''blockhash'',
      serialize = (\<lambda>m. Inr ''AQAB'')\<rparr>"

definition ledgerWithAccounts :: solana where
  "ledgerWithAccounts = ledgerWithoutAccounts\<lparr>getAccount := (\<lambda>a. Inr 5000000)\<rparr>"

definition sampleRequest :: "string \<Rightarrow> transferRequest" where
  "sampleRequest a = \<lparr>fromAddress = Some ''alice'', toAddress = Some ''bob'', amount = Some a\<rparr>"

text \<open>
  A signing library that accepts every string as a key and every key as a signer.
\<close>

definition sampleLib :: "(string, string) signingLib" where
  "sampleLib =
     \<lparr>newPublicKey = (\<lambda>s. Inr s),
      setSignature = (\<lambda>t k b. Inr (t @ ''+signed''))\<rparr>"

section \<open>The words of the specification\<close>

text \<open>The ledger's base58 alphabet, letter by letter.\<close>

definition base58Alphabet :: string where
  "base58Alphabet = ''123456789ABCDEFGHJKLMNPQRSTUVWXYZabcdefghijkmnopqrstuvwxyz''"



text \<open>
  An amount string that does not denote a positive number. After leading white space
  and an optional sign, either it begins with neither \<open>Infinity\<close> nor a decimal
  literal; or it begins with \<open>Infinity\<close> and the sign is a minus; or it begins with a
  decimal literal whose signed value is at most \<open>2^-1075\<close>, which is zero, negative,
  or so small that the nearest binary64 value is zero.
\<close>

definition notPositiveAmount :: "string \<Rightarrow> bool" where
  "notPositiveAmount a =
     (let (neg, u) = takeSign (trimStart a)
      in if startsWith u ''Infinity'' then neg
         else (case mathValue a of None \<Rightarrow> True | Some v \<Rightarrow> v \<le> pow2 (- 1075)))"

text \<open>The snapshot with both balances zero.\<close>

definition zeroBalances :: balances where
  "zeroBalances = \<lparr>solBalance = JNumber (Fin 0), usdcBalance = JNumber (Fin 0)\<rparr>"

section \<open>Strings and patterns: lemmas\<close>

lemma dropWhile_all: "\<forall>c\<in>set s. P c \<Longrightarrow> dropWhile P s = []"
  by (induction s) auto

lemma trim_whitespace: "\<forall>c\<in>set s. isWhiteSpace c \<Longrightarrow> trim s = []"
  by (simp add: trim_def dropWhile_all)

text \<open>What \<open>trim\<close> returns neither starts nor ends with white space.\<close>

lemma dropWhile_rev_trim:
  "dropWhile P (rev (dropWhile P (rev (dropWhile P s)))) = rev (dropWhile P (rev (dropWhile P s)))"
proof -
  define u where "u = dropWhile P s"
  define v where "v = dropWhile P (rev u)"
  have goal: "dropWhile P (rev v) = rev v"
  proof (cases "v = []")
    case True
    then show ?thesis by simp
  next
    case False
    have "rev u = takeWhile P (rev u) @ v" by (simp add: v_def)
    then have "u = rev v @ rev (takeWhile P (rev u))" by (metis rev_append rev_rev_ident)
    moreover have "rev v \<noteq> []" using False by simp
    ultimately have "hd (rev v) = hd u" by (metis hd_append2)
    moreover have "u \<noteq> []" using False v_def by auto
    then have "\<not> P (hd u)" unfolding u_def by (rule hd_dropWhile)
    ultimately have "\<not> P (hd (rev v))" by simp
    then show ?thesis using \<open>rev v \<noteq> []\<close> by (cases "rev v") auto
  qed
  then show ?thesis by (simp add: u_def v_def)
qed

lemma trim_trim: "trim (trim s) = trim s"
  by (simp add: trim_def dropWhile_rev_trim)

text \<open>A quantified class matches exactly the strings of its letters with a length in range.\<close>

lemma reps_class:
  "[] \<in> set (reps (\<lambda>t. rests (Cls C) t) m n s) \<longleftrightarrow>
     m \<le> length s \<and> length s \<le> n \<and> (\<forall>c\<in>set s. inClass C c)"
proof (induction n arbitrary: m s)
  case 0
  then show ?case by (cases m) auto
next
  case (Suc n)
  then show ?case by (cases m; cases s) auto
qed

lemma inClass_base58: "inClass base58Class c \<longleftrightarrow> c \<in> set base58Alphabet"
proof -
  have "c \<in> set base58Alphabet \<longleftrightarrow> codeUnit c \<in> codeUnit ` set base58Alphabet"
    by (auto simp: codeUnit_def)
  also have "\<dots> \<longleftrightarrow> (49 \<le> codeUnit c \<and> codeUnit c \<le> 57) \<or> (65 \<le> codeUnit c \<and> codeUnit c \<le> 72)
      \<or> (74 \<le> codeUnit c \<and> codeUnit c \<le> 78) \<or> (80 \<le> codeUnit c \<and> codeUnit c \<le> 90)
      \<or> (97 \<le> codeUnit c \<and> codeUnit c \<le> 107) \<or> (109 \<le> codeUnit c \<and> codeUnit c \<le> 122)"
    unfolding base58Alphabet_def by (simp add: codeUnit_def) presburger
  also have "\<dots> \<longleftrightarrow> inClass base58Class c"
    by (simp add: inClass_def base58Class_def codeUnit_def)
  finally show ?thesis by simp
qed

lemma solanaAddressRegex_iff:
  "regexTest solanaAddressRegex s \<longleftrightarrow>
     32 \<le> length s \<and> length s \<le> 44 \<and> set s \<subseteq> set base58Alphabet"
  by (auto simp: regexTest_def solanaAddressRegex_def reps_class inClass_base58)

lemma includes_at: "includesStr s ''@'' \<longleftrightarrow> CHR ''@'' \<in> set s"
  by (induction s) (auto simp: startsWith_def)

text \<open>Splitting gives one part more than there are separators.\<close>

lemma length_splitStr: "length (splitStr s c) = Suc (count_list s c)"
  by (induction s) (auto split: list.splits)

lemma at_not_base58: "CHR ''@'' \<notin> set base58Alphabet"
  by (simp add: base58Alphabet_def)

section \<open>Recipient classification: theorems\<close>

text \<open>
  Claim C2. For every input string, with \<open>t\<close> the input trimmed: the classification is
  \<open>Address\<close> exactly when \<open>t\<close> has 32 to 44 characters, all of the base58 alphabet
  (so no \<open>@\<close>); it is \<open>Email\<close> exactly when \<open>t\<close> contains \<open>@\<close>, has at most 254
  characters, splits into exactly two parts on \<open>@\<close> and matches the e-mail pattern; it
  is \<open>Invalid\<close> for every other string.
\<close>

theorem detectInputType_classification:
  "(detectInputType input = Address \<longleftrightarrow>
      32 \<le> length (trim input) \<and> length (trim input) \<le> 44 \<and>
      set (trim input) \<subseteq> set base58Alphabet)
   \<and> (detectInputType input = Email \<longleftrightarrow>
      CHR ''@'' \<in> set (trim input) \<and> length (trim input) \<le> 254 \<and>
      length (splitStr (trim input) CHR ''@'') = 2 \<and> regexTest emailRegex (trim input))
   \<and> (detectInputType input = Invalid \<longleftrightarrow>
      \<not> (32 \<le> length (trim input) \<and> length (trim input) \<le> 44 \<and>
         set (trim input) \<subseteq> set base58Alphabet)
      \<and> \<not> (CHR ''@'' \<in> set (trim input) \<and> length (trim input) \<le> 254 \<and>
         length (splitStr (trim input) CHR ''@'') = 2 \<and> regexTest emailRegex (trim input)))"
proof -
  have a: "CHR ''@'' \<in> set (trim input) \<Longrightarrow> \<not> set (trim input) \<subseteq> set base58Alphabet"
    using at_not_base58 by blast
  have e: "trim input = [] \<Longrightarrow> \<not> 32 \<le> length (trim input)" by simp
  show ?thesis
    using a e
    by (simp add: detectInputType_def isValidEmail_def isValidWalletAddress_def Let_def
          trim_trim solanaAddressRegex_iff includes_at)
qed

theorem detectInputType_classification_witness:
  "detectInputType ''  4zMMC9srt5Ri5X14GAgXhaHii3GnPAEERYPJgZJDncDU '' = Address
   \<and> detectInputType ''4zMMC9srt5Ri5X14GAgXhaHii3GnPAEERYPJgZJDnc0U'' = Invalid
   \<and> detectInputType ''a@b.co'' = Email"
proof -
  have "regexTest emailRegex ''a@b.co''" by code_simp
  then show ?thesis
    using detectInputType_classification [of "''  4zMMC9srt5Ri5X14GAgXhaHii3GnPAEERYPJgZJDncDU ''"]
      detectInputType_classification [of "''4zMMC9srt5Ri5X14GAgXhaHii3GnPAEERYPJgZJDnc0U''"]
      detectInputType_classification [of "''a@b.co''"]
    by (simp add: trim_def isWhiteSpace_def codeUnit_def base58Alphabet_def)
qed

text \<open>
  Claim C9. For every input string that is empty or consists only of white space, the
  classification is \<open>Invalid\<close>.
\<close>

theorem detectInputType_whitespace:
  "\<forall>c\<in>set input. isWhiteSpace c \<Longrightarrow> detectInputType input = Invalid"
  by (simp add: detectInputType_def trim_whitespace)

theorem detectInputType_whitespace_witness:
  "detectInputType '' '' = Invalid \<and> detectInputType [] = Invalid"
  using detectInputType_whitespace [of "'' ''"] detectInputType_whitespace [of "[]"]
  by (simp add: isWhiteSpace_def codeUnit_def)

section \<open>The insufficient-gas classifier: theorems\<close>

text \<open>
  Claim C10. For every failure signal that is neither a string nor an \<open>Error\<close> object
  (\<open>null\<close>, \<open>undefined\<close>, a number, a plain object, ...), the insufficient-gas
  classifier returns false.
\<close>

theorem isInsufficientGasError_other:
  "(\<forall>s. error \<noteq> JString s) \<and> (\<forall>m. error \<noteq> JError m) \<longrightarrow> \<not> isInsufficientGasError error"
  by (cases error) (simp_all add: isInsufficientGasError_def)

theorem isInsufficientGasError_other_witness:
  "\<not> isInsufficientGasError JNull \<and> \<not> isInsufficientGasError JUndefined
   \<and> \<not> isInsufficientGasError (JNumber (Fin 7))
   \<and> \<not> isInsufficientGasError (JObject [(''message'', JString ''insufficient funds'')])"
  using isInsufficientGasError_other [of JNull] isInsufficientGasError_other [of JUndefined]
    isInsufficientGasError_other [of "JNumber (Fin 7)"]
    isInsufficientGasError_other [of "JObject [(''message'', JString ''insufficient funds'')]"]
  by simp

section \<open>The signing step: theorems\<close>

text \<open>
  Claim C5. For every signer response, the signing step proceeds only on status
  \<open>SUCCESS\<close>; status \<open>USER_REQUEST_DENIED\<close> or \<open>USER_CONSENT_DENIED\<close> fails with
  the user-denial error; every other status (an absent response and an absent or empty
  status count as \<open>UNKNOWN\<close>) fails with the generic signing failure that names the
  status; and \<open>SUCCESS\<close> with no signature fails with the generic failure "did not
  return a transaction signature".
\<close>

theorem signer_status:
  "((\<exists>t. signStep lib tx addr r = Inr t) \<longrightarrow> Option.bind r status = Some ''SUCCESS'')
   \<and> (Option.bind r status = Some ''USER_REQUEST_DENIED'' \<or>
        Option.bind r status = Some ''USER_CONSENT_DENIED'' \<longrightarrow>
        signStep lib tx addr r = Inl ''User denied transaction signing'')
   \<and> (Option.bind r status \<noteq> Some ''SUCCESS'' \<and>
        Option.bind r status \<noteq> Some ''USER_REQUEST_DENIED'' \<and>
        Option.bind r status \<noteq> Some ''USER_CONSENT_DENIED'' \<longrightarrow>
        signStep lib tx addr r = Inl (''Transaction signing failed ('' @ statusOrUnknown r @ '')''))
   \<and> (Option.bind r status = Some ''SUCCESS'' \<and>
        (Option.bind r signature = None \<or> Option.bind r signature = Some []) \<longrightarrow>
        signStep lib tx addr r = Inl ''MetaKeep did not return a transaction signature'')"
  by (cases r) (auto simp: signStep_def statusOrUnknown_def Let_def split: option.splits)

theorem signer_status_witness:
  "signStep sampleLib ''tx'' ''alice'' (Some \<lparr>status = Some ''USER_REQUEST_DENIED'', signature = None\<rparr>)
     = Inl ''User denied transaction signing''
   \<and> signStep sampleLib ''tx'' ''alice'' (Some \<lparr>status = Some ''USER_CONSENT_DENIED'', signature = None\<rparr>)
     = Inl ''User denied transaction signing''
   \<and> signStep sampleLib ''tx'' ''alice'' (Some \<lparr>status = Some ''FAILED'', signature = None\<rparr>)
     = Inl ''Transaction signing failed (FAILED)''
   \<and> signStep sampleLib ''tx'' ''alice'' None = Inl ''Transaction signing failed (UNKNOWN)''
   \<and> signStep sampleLib ''tx'' ''alice'' (Some \<lparr>status = Some ''SUCCESS'', signature = None\<rparr>)
     = Inl ''MetaKeep did not return a transaction signature''"
  using
    signer_status [of sampleLib "''tx''" "''alice''"
      "Some \<lparr>status = Some ''USER_REQUEST_DENIED'', signature = None\<rparr>"]
    signer_status [of sampleLib "''tx''" "''alice''"
      "Some \<lparr>status = Some ''USER_CONSENT_DENIED'', signature = None\<rparr>"]
    signer_status [of sampleLib "''tx''" "''alice''"
      "Some \<lparr>status = Some ''FAILED'', signature = None\<rparr>"]
    signer_status [of sampleLib "''tx''" "''alice''" None]
    signer_status [of sampleLib "''tx''" "''alice''"
      "Some \<lparr>status = Some ''SUCCESS'', signature = None\<rparr>"]
  by (simp add: statusOrUnknown_def)










section \<open>Numbers: lemmas\<close>

lemma pow2_powi: "pow2 k = 2 powi k"
  by (simp add: pow2_def power_int_def power_one_over inverse_eq_divide)

lemma pow2_pos: "0 < pow2 k"
  by (simp add: pow2_powi)

lemma pow2_strict_mono: "pow2 a < pow2 b \<longleftrightarrow> a < b"
proof
  assume "pow2 a < pow2 b"
  show "a < b"
  proof (rule ccontr)
    assume "\<not> a < b"
    then have "b \<le> a" by simp
    then have "pow2 b \<le> pow2 a"
      unfolding pow2_powi by (intro power_int_increasing) auto
    with \<open>pow2 a < pow2 b\<close> show False by simp
  qed
next
  assume "a < b"
  then show "pow2 a < pow2 b"
    unfolding pow2_powi by (intro power_int_strict_increasing) auto
qed

lemma pow2_mono: "pow2 a \<le> pow2 b \<longleftrightarrow> a \<le> b"
  by (metis pow2_strict_mono linorder_not_less)

lemma pow2_add: "pow2 (a + b) = pow2 a * pow2 b"
  by (simp add: pow2_powi power_int_add)

lemma floor_rat_numeral [simp]:
  "\<lfloor>(numeral a / numeral b :: rat)\<rfloor> = numeral a div numeral b"
  by (metis floor_divide_of_int_eq of_int_numeral)

text \<open>\<open>ilog2\<close> is the binary exponent: \<open>2^(ilog2 a) \<le> a < 2^(ilog2 a + 1)\<close>.\<close>

lemma ilog2_lower:
  assumes "0 < a"
  shows "pow2 (ilog2 a) \<le> a"
proof (cases "1 \<le> a")
  case True
  then have fl: "0 < \<lfloor>a\<rfloor>" by simp
  have b1: "1 \<le> bitlen \<lfloor>a\<rfloor>"
    using fl bitlen_eq_zero_iff [of "\<lfloor>a\<rfloor>"] bitlen_nonneg [of "\<lfloor>a\<rfloor>"] by linarith
  from bitlen_bounds [OF fl] have "2 ^ nat (bitlen \<lfloor>a\<rfloor> - 1) \<le> \<lfloor>a\<rfloor>" by simp
  then have "(2::rat) ^ nat (bitlen \<lfloor>a\<rfloor> - 1) \<le> of_int \<lfloor>a\<rfloor>"
    by (metis of_int_le_iff of_int_numeral of_int_power)
  also have "\<dots> \<le> a" by simp
  finally show ?thesis using True b1 by (simp add: ilog2_def pow2_def)
next
  case False
  define n where "n = \<lceil>1 / a\<rceil> - 1"
  have "1 < 1 / a" using False assms by simp
  then have "1 < \<lceil>1 / a\<rceil>" by (simp add: less_ceiling_iff)
  then have n: "0 < n" by (simp add: n_def)
  have k: "1 \<le> bitlen n"
    using n bitlen_eq_zero_iff [of n] bitlen_nonneg [of n] by linarith
  from bitlen_bounds [OF n] have "n < 2 ^ nat (bitlen n)" by simp
  then have "\<lceil>1 / a\<rceil> \<le> 2 ^ nat (bitlen n)" by (simp add: n_def)
  then have "of_int \<lceil>1 / a\<rceil> \<le> (2::rat) ^ nat (bitlen n)"
    by (metis of_int_le_iff of_int_numeral of_int_power)
  moreover have "1 / a \<le> of_int \<lceil>1 / a\<rceil>" by simp
  ultimately have "1 / a \<le> 2 ^ nat (bitlen n)" by linarith
  then have "1 / 2 ^ nat (bitlen n) \<le> a"
    using assms by (simp add: field_simps)
  then show ?thesis using False k by (simp add: ilog2_def pow2_def n_def)
qed

lemma ilog2_upper:
  assumes "0 < a"
  shows "a < pow2 (ilog2 a + 1)"
proof (cases "1 \<le> a")
  case True
  then have fl: "0 < \<lfloor>a\<rfloor>" by simp
  have b1: "1 \<le> bitlen \<lfloor>a\<rfloor>"
    using fl bitlen_eq_zero_iff [of "\<lfloor>a\<rfloor>"] bitlen_nonneg [of "\<lfloor>a\<rfloor>"] by linarith
  from bitlen_bounds [OF fl] have "\<lfloor>a\<rfloor> < 2 ^ nat (bitlen \<lfloor>a\<rfloor>)" by simp
  then have "\<lfloor>a\<rfloor> + 1 \<le> 2 ^ nat (bitlen \<lfloor>a\<rfloor>)" by simp
  then have "of_int (\<lfloor>a\<rfloor> + 1) \<le> (2::rat) ^ nat (bitlen \<lfloor>a\<rfloor>)"
    by (metis of_int_le_iff of_int_numeral of_int_power)
  moreover have "a < of_int (\<lfloor>a\<rfloor> + 1)" by linarith
  ultimately show ?thesis using True b1 by (simp add: ilog2_def pow2_def)
next
  case False
  define n where "n = \<lceil>1 / a\<rceil> - 1"
  have "1 < 1 / a" using False assms by simp
  then have "1 < \<lceil>1 / a\<rceil>" by (simp add: less_ceiling_iff)
  then have n: "0 < n" by (simp add: n_def)
  have k: "1 \<le> bitlen n"
    using n bitlen_eq_zero_iff [of n] bitlen_nonneg [of n] by linarith
  from bitlen_bounds [OF n] have "2 ^ nat (bitlen n - 1) \<le> n" by simp
  then have "(2::rat) ^ nat (bitlen n - 1) \<le> of_int n"
    by (metis of_int_le_iff of_int_numeral of_int_power)
  moreover have "of_int n < 1 / a" unfolding n_def by linarith
  ultimately have "2 ^ nat (bitlen n - 1) < 1 / a" by linarith
  then have "a < 1 / 2 ^ nat (bitlen n - 1)"
    using assms by (simp add: field_simps)
  moreover have "pow2 (- bitlen n + 1) = 1 / 2 ^ nat (bitlen n - 1)"
    using k by (auto simp: pow2_def)
  ultimately show ?thesis using False by (simp add: ilog2_def n_def)
qed

lemma ilog2_eq:
  assumes "pow2 e \<le> a" "a < pow2 (e + 1)"
  shows "ilog2 a = e"
proof -
  have a: "0 < a" using assms(1) pow2_pos [of e] by linarith
  have "pow2 e < pow2 (ilog2 a + 1)" using assms(1) ilog2_upper [OF a] by linarith
  moreover have "pow2 (ilog2 a) < pow2 (e + 1)" using assms(2) ilog2_lower [OF a] by linarith
  ultimately show ?thesis by (simp add: pow2_strict_mono)
qed

lemma roundHalfEven_nonneg: "0 \<le> x \<Longrightarrow> 0 \<le> roundHalfEven x"
  by (simp add: roundHalfEven_def Let_def)

lemma roundHalfEven_ge_floor: "\<lfloor>x\<rfloor> \<le> roundHalfEven x"
  by (simp add: roundHalfEven_def Let_def)

lemma roundHalfEven_zero_iff: "0 \<le> x \<Longrightarrow> roundHalfEven x = 0 \<longleftrightarrow> x \<le> 1 / 2"
proof -
  assume x: "0 \<le> x"
  have f: "0 \<le> \<lfloor>x\<rfloor>" using x by simp
  show ?thesis
  proof (cases "\<lfloor>x\<rfloor> = 0")
    case True
    then show ?thesis by (auto simp: roundHalfEven_def Let_def)
  next
    case False
    then have "1 \<le> \<lfloor>x\<rfloor>" using f by linarith
    then have "1 \<le> x" by linarith
    moreover have "roundHalfEven x \<noteq> 0"
      using \<open>1 \<le> \<lfloor>x\<rfloor>\<close> roundHalfEven_ge_floor [of x] by linarith
    ultimately show ?thesis by auto
  qed
qed

text \<open>The sign of a rounded value: only values of at most \<open>2^-1075\<close> round to zero or below.\<close>

lemma Number_of_nonpos: "v \<le> 0 \<Longrightarrow> leZero (Number_of v)"
proof -
  assume v: "v \<le> 0"
  have "0 \<le> of_int (roundHalfEven (\<bar>v\<bar> / q)) * q" if "0 < q" for q :: rat
    using that roundHalfEven_nonneg [of "\<bar>v\<bar> / q"] by simp
  then show ?thesis
    using v by (auto simp: Number_of_def Let_def leZero_def pow2_pos)
qed

lemma Number_of_pos:
  assumes "0 < v"
  shows "leZero (Number_of v) \<longleftrightarrow> v \<le> pow2 (- 1075)"
proof -
  define e where "e = max (ilog2 v) (- 1022)"
  define q where "q = pow2 (e - 52)"
  define n where "n = roundHalfEven (v / q)"
  have q: "0 < q" by (simp add: q_def pow2_pos)
  have n0: "0 \<le> n" unfolding n_def using assms q by (intro roundHalfEven_nonneg) simp
  have N: "Number_of v = (if 2 ^ 1024 \<le> of_int n * q then PosInf else Fin (of_int n * q))"
    using assms by (simp add: Number_of_def Let_def e_def q_def n_def)
  have half: "q / 2 = pow2 (e - 53)"
    using pow2_add [of "e - 53" 1] by (simp add: q_def pow2_def)
  have "leZero (Number_of v) \<longleftrightarrow> n = 0"
  proof
    assume "leZero (Number_of v)"
    then have "of_int n * q \<le> 0" unfolding N by (simp add: leZero_def split: if_splits)
    then show "n = 0" using q n0 by (simp add: mult_le_0_iff)
  next
    assume "n = 0"
    then show "leZero (Number_of v)" unfolding N by (simp add: leZero_def)
  qed
  also have "\<dots> \<longleftrightarrow> v / q \<le> 1 / 2"
    unfolding n_def using assms q by (intro roundHalfEven_zero_iff) simp
  also have "\<dots> \<longleftrightarrow> v \<le> pow2 (e - 53)"
    using q half by (simp add: field_simps)
  also have "\<dots> \<longleftrightarrow> v \<le> pow2 (- 1075)"
  proof
    assume le: "v \<le> pow2 (e - 53)"
    have "\<not> - 1022 \<le> ilog2 v"
    proof
      assume "- 1022 \<le> ilog2 v"
      then have "e = ilog2 v" by (simp add: e_def)
      then have "pow2 e \<le> v" using ilog2_lower [OF assms] by simp
      with le have "pow2 e \<le> pow2 (e - 53)" by linarith
      then show False by (simp add: pow2_mono)
    qed
    then have "e = - 1022" by (simp add: e_def)
    with le show "v \<le> pow2 (- 1075)" by simp
  next
    assume le: "v \<le> pow2 (- 1075)"
    have "pow2 (ilog2 v) \<le> pow2 (- 1075)" using ilog2_lower [OF assms] le by linarith
    then have "ilog2 v \<le> - 1075" by (simp add: pow2_mono)
    then have "e = - 1022" by (simp add: e_def)
    with le show "v \<le> pow2 (e - 53)" by simp
  qed
  finally show ?thesis .
qed

lemma Number_of_leZero: "leZero (Number_of v) \<longleftrightarrow> v \<le> pow2 (- 1075)"
proof (cases "0 < v")
  case True
  then show ?thesis by (rule Number_of_pos)
next
  case False
  then have "v \<le> 0" by simp
  moreover have "0 < pow2 (- 1075)" by (rule pow2_pos)
  ultimately show ?thesis using Number_of_nonpos [of v] by auto
qed

lemma Number_of_not_NaN: "Number_of v \<noteq> NaN"
  by (simp add: Number_of_def Let_def)

text \<open>
  In the normal range the rounded value is the significand times the spacing of the
  binade, and there is no overflow below \<open>2^1023\<close>.
\<close>

lemma Number_of_normal:
  assumes "pow2 e \<le> v" "v < pow2 (e + 1)" "- 1022 \<le> e" "e < 1023"
  shows "Number_of v = Fin (of_int (roundHalfEven (v / pow2 (e - 52))) * pow2 (e - 52))"
proof -
  have v: "0 < v" using assms(1) pow2_pos [of e] by linarith
  have e: "ilog2 v = e" using assms(1,2) by (rule ilog2_eq)
  define q where "q = pow2 (e - 52)"
  have q: "0 < q" by (simp add: q_def pow2_pos)
  have pe: "pow2 (e + 1) = q * 2 ^ 53"
  proof -
    have "e + 1 = (e - 52) + 53" by simp
    then have "pow2 (e + 1) = pow2 (e - 52) * pow2 53" by (simp only: pow2_add)
    then show ?thesis by (simp add: q_def pow2_def)
  qed
  have "v / q < pow2 (e + 1) / q" using assms(2) q by (simp add: divide_strict_right_mono)
  also have "pow2 (e + 1) / q = 2 ^ 53"
    using q by (simp add: pe)
  finally have "v / q < 2 ^ 53" .
  then have "\<lfloor>v / q\<rfloor> < 2 ^ 53" by (simp add: floor_less_iff)
  then have "roundHalfEven (v / q) \<le> 2 ^ 53"
    by (simp add: roundHalfEven_def Let_def)
  then have "of_int (roundHalfEven (v / q)) \<le> (2::rat) ^ 53"
    by (metis of_int_le_iff of_int_numeral of_int_power)
  then have "of_int (roundHalfEven (v / q)) * q \<le> 2 ^ 53 * q"
    using q by (simp add: mult_right_mono)
  also have "2 ^ 53 * q = pow2 (e + 1)"
    by (simp add: pe)
  also have "\<dots> \<le> pow2 1023" using assms(4) by (simp add: pow2_mono)
  also have "\<dots> < 2 ^ 1024" by (simp add: pow2_def)
  finally have nn: "\<not> 2 ^ 1024 \<le> of_int (roundHalfEven (v / q)) * q" by simp
  have m: "max (ilog2 v) (- 1022) = e" using assms(3) e by simp
  have av: "\<bar>v\<bar> = v" using v by simp
  have "Number_of v = Fin (of_int (roundHalfEven (v / q)) * q)"
    unfolding Number_of_def Let_def av m q_def [symmetric] using v nn by simp
  then show ?thesis by (simp add: q_def)
qed

subsection \<open>Amounts read and converted\<close>

lemmas parse_defs = parseFloat_def mathValue_def parseUnsigned_def parseExponent_def takeSign_def
  trimStart_def isWhiteSpace_def startsWith_def isDigit_def digitsValue_def codeUnit_def pow10_def

lemma parseFloat_cases:
  "parseFloat a =
     (if startsWith (snd (takeSign (trimStart a))) ''Infinity''
      then (if fst (takeSign (trimStart a)) then NegInf else PosInf)
      else (case mathValue a of None \<Rightarrow> NaN | Some v \<Rightarrow> Number_of v))"
  by (simp add: parseFloat_def split: prod.splits)

lemma parseFloat_Fin:
  assumes "parseFloat a = Fin x"
  shows "\<exists>v. mathValue a = Some v \<and> Number_of v = Fin x"
  using assms by (auto simp: parseFloat_cases split: if_splits option.splits)

text \<open>The amount check of the route rejects exactly the amounts that are not positive.\<close>

lemma amount_check_iff:
  "isNaN (parseFloat a) \<or> leZero (parseFloat a) \<longleftrightarrow> notPositiveAmount a"
proof -
  have [simp]: "leZero NegInf" "\<not> leZero PosInf" "\<not> leZero NaN"
    by (simp_all add: leZero_def)
  show ?thesis
    by (auto simp: parseFloat_def notPositiveAmount_def isNaN_def Number_of_not_NaN
        Number_of_leZero split: prod.splits option.splits)
qed

lemma mathValue_tiny: "mathValue ''0.0000001'' = Some (1 / 10000000)"
  by (simp add: parse_defs)

lemma Number_of_tiny: "Number_of (1 / 10000000) = Fin (944473296573929 / 9444732965739290427392)"
  using Number_of_normal [of "- 24" "1 / 10000000"]
  by (simp add: pow2_def roundHalfEven_def Let_def)

lemma parseFloat_tiny:
  "parseFloat ''0.0000001'' = Fin (944473296573929 / 9444732965739290427392)"
  by (simp add: parseFloat_cases mathValue_tiny Number_of_tiny) (simp add: parse_defs)

lemma transferAmount_tiny:
  "transferAmount (Fin (944473296573929 / 9444732965739290427392)) = Fin 0"
  using Number_of_normal [of "- 4" "944473296573929 / 9444732965739290427392 * 10 ^ 6"]
  by (simp add: transferAmount_def timesConst_def Math_floor_def pow2_def roundHalfEven_def Let_def)

lemma mathValue_1005: "mathValue ''1.005'' = Some (201 / 200)"
  by (simp add: parse_defs)

lemma Number_of_1005: "Number_of (201 / 200) = Fin (1131529406376837 / 1125899906842624)"
  using Number_of_normal [of 0 "201 / 200"]
  by (simp add: pow2_def roundHalfEven_def Let_def)

lemma parseFloat_1005: "parseFloat ''1.005'' = Fin (1131529406376837 / 1125899906842624)"
  by (simp add: parseFloat_cases mathValue_1005 Number_of_1005) (simp add: parse_defs)

lemma transferAmount_1005:
  "transferAmount (Fin (1131529406376837 / 1125899906842624)) = Fin 1004999"
  using Number_of_normal [of 19 "1131529406376837 / 1125899906842624 * 10 ^ 6"]
  by (simp add: transferAmount_def timesConst_def Math_floor_def pow2_def roundHalfEven_def Let_def)

lemma mathValue_15abc: "mathValue ''1.5abc'' = Some (3 / 2)"
  by (simp add: parse_defs)

lemma Number_of_15: "Number_of (3 / 2) = Fin (3 / 2)"
  using Number_of_normal [of 0 "3 / 2"]
  by (simp add: pow2_def roundHalfEven_def Let_def)

lemma parseFloat_15abc: "parseFloat ''1.5abc'' = Fin (3 / 2)"
  by (simp add: parseFloat_cases mathValue_15abc Number_of_15) (simp add: parse_defs)

lemma transferAmount_15: "transferAmount (Fin (3 / 2)) = Fin 1500000"
  using Number_of_normal [of 20 "3 / 2 * 10 ^ 6"]
  by (simp add: transferAmount_def timesConst_def Math_floor_def pow2_def roundHalfEven_def Let_def)

lemma mathValue_100: "mathValue ''1.00'' = Some 1"
  by (simp add: parse_defs)

lemma Number_of_1: "Number_of 1 = Fin 1"
  using Number_of_normal [of 0 1]
  by (simp add: pow2_def roundHalfEven_def Let_def)

lemma Number_of_million: "Number_of (10 ^ 6) = Fin (10 ^ 6)"
  using Number_of_normal [of 19 "10 ^ 6"]
  by (simp add: pow2_def roundHalfEven_def Let_def)

lemma parseFloat_100: "parseFloat ''1.00'' = Fin 1"
  by (simp add: parseFloat_cases mathValue_100 Number_of_1) (simp add: parse_defs)

lemma transferAmount_1: "transferAmount (Fin 1) = Fin (of_int 1000000)"
  using Number_of_million by (simp add: transferAmount_def timesConst_def Math_floor_def)

lemma mathValue_250: "mathValue ''2.50'' = Some (5 / 2)"
  by (simp add: parse_defs)

lemma Number_of_250: "Number_of (5 / 2) = Fin (5 / 2)"
  using Number_of_normal [of 1 "5 / 2"]
  by (simp add: pow2_def roundHalfEven_def Let_def)

lemma Number_of_250_million: "Number_of (5 / 2 * 10 ^ 6) = Fin (5 / 2 * 10 ^ 6)"
  using Number_of_normal [of 21 "5 / 2 * 10 ^ 6"]
  by (simp add: pow2_def roundHalfEven_def Let_def)

lemma parseFloat_250: "parseFloat ''2.50'' = Fin (5 / 2)"
  by (simp add: parseFloat_cases mathValue_250 Number_of_250) (simp add: parse_defs)

lemma transferAmount_250: "transferAmount (Fin (5 / 2)) = Fin (of_int 2500000)"
  using Number_of_250_million by (simp add: transferAmount_def timesConst_def Math_floor_def)

lemma notPositive_abc: "notPositiveAmount ''abc''"
  by (simp add: notPositiveAmount_def parse_defs)

lemma notPositive_0: "notPositiveAmount ''0''"
  by (simp add: notPositiveAmount_def parse_defs pow2_def)

lemma notPositive_minus1: "notPositiveAmount ''-1''"
  by (simp add: notPositiveAmount_def parse_defs pow2_def)

lemma mathValue_underflow: "mathValue ''1e-400'' = Some (1 / 10 ^ 400)"
  by (simp add: parse_defs)

lemma notPositive_underflow: "notPositiveAmount ''1e-400''"
  by (simp add: notPositiveAmount_def mathValue_underflow pow2_def) (simp add: parse_defs)

lemma positive_15abc: "\<not> notPositiveAmount ''1.5abc''"
  by (simp add: notPositiveAmount_def mathValue_15abc pow2_def) (simp add: parse_defs)

section \<open>The transfer route: lemmas\<close>

text \<open>A response with status 200 comes from a message that was built and serialized.\<close>

lemma POST_200:
  assumes "POST rpc mint req = Response 200 b"
  shows "\<exists>m s. buildTransfer rpc mint req = Inr (Inr m) \<and> serialize rpc m = Inr s \<and>
           b = TransactionBody s (''Transfer '' @ the (amount req) @ '' USDC'')"
proof (cases "buildTransfer rpc mint req")
  case (Inl e)
  then show ?thesis using assms by (simp add: POST_def)
next
  case (Inr x)
  show ?thesis
  proof (cases x)
    case (Inl r)
    have "r = Response 400 (ErrorBody ''Missing required fields: from, to, amount'' None)
       \<or> r = Response 400 (ErrorBody ''Invalid Solana address format'' None)
       \<or> r = Response 400 (ErrorBody ''Invalid amount'' None)
       \<or> r = Response 500 (ErrorBody ''USDC mint address not configured''
                 (Some ''Set NEXT_PUBLIC_USDC_MINT_ADDRESS to a valid mint address.''))"
      using Inr Inl
      by (simp add: buildTransfer_def Let_def split: if_splits sum.splits)
    then show ?thesis using assms Inr Inl by (auto simp: POST_def)
  next
    case (Inr m)
    then show ?thesis using assms \<open>buildTransfer rpc mint req = Inr x\<close>
      by (auto simp: POST_def split: sum.splits)
  qed
qed

lemma POST_early: "buildTransfer rpc mint req = Inr (Inl r) \<Longrightarrow> POST rpc mint req = r"
  by (simp add: POST_def)

lemma POST_400:
  assumes "POST rpc mint req = Response 400 b"
  shows "buildTransfer rpc mint req = Inr (Inl (Response 400 b))"
proof (cases "buildTransfer rpc mint req")
  case (Inl e)
  then show ?thesis using assms by (simp add: POST_def)
next
  case (Inr x)
  then show ?thesis using assms by (cases x) (auto simp: POST_def split: sum.splits)
qed

text \<open>An amount below \<open>2^64\<close> is written as it is.\<close>

lemma u64Digits_small: "n < 2 ^ 64 \<Longrightarrow> u64Digits n = n"
  by (subst u64Digits.simps) simp

lemma writeU64_small: "0 \<le> n \<Longrightarrow> n < 2 ^ 64 \<Longrightarrow> uint (writeU64 n) = n"
proof -
  assume n: "0 \<le> n" "n < 2 ^ 64"
  have "uint (word_of_int n :: 64 word) = n"
    using n by (simp add: uint_word_of_int take_bit_int_eq_self)
  then show ?thesis using n by (simp add: writeU64_def u64Digits_small)
qed

lemma writeU64_numeral [simp]:
  "numeral k < (2 ^ 64 :: int) \<Longrightarrow> writeU64 (numeral k) = numeral k"
  by (simp add: writeU64_def u64Digits_small)

lemma writeU64_zero [simp]: "writeU64 0 = 0"
  by (simp add: writeU64_def u64Digits_small)

text \<open>What a built message holds.\<close>

lemma buildTransfer_message:
  assumes "buildTransfer rpc mint req = Inr (Inr m)"
  shows "\<exists>sender recipient usdcMint src dst n.
      PublicKey rpc (the (fromAddress req)) = Inr sender
    \<and> PublicKey rpc (the (toAddress req)) = Inr recipient
    \<and> PublicKey rpc mint = Inr usdcMint
    \<and> getAssociatedTokenAddress rpc usdcMint sender = Inr src
    \<and> getAssociatedTokenAddress rpc usdcMint recipient = Inr dst
    \<and> BigInt (transferAmount (parseFloat (the (amount req)))) = Inr n
    \<and> \<not> isNaN (parseFloat (the (amount req))) \<and> \<not> leZero (parseFloat (the (amount req)))
    \<and> payerKey m = sender
    \<and> instructions m =
         (if (\<exists>e. getAccount rpc dst = Inl e)
          then [CreateAssociatedTokenAccount sender dst recipient usdcMint,
                Transfer src dst sender (writeU64 n)]
          else [Transfer src dst sender (writeU64 n)])"
  using assms
  by (auto simp: buildTransfer_def createTransferInstruction_def Let_def split: if_splits sum.splits)

lemma buildTransfer_invalid_amount:
  assumes "amount req = Some a" "isNaN (parseFloat a) \<or> leZero (parseFloat a)"
  shows "\<exists>e. buildTransfer rpc mint req = Inr (Inl (Response 400 (ErrorBody e None)))"
  using assms by (auto simp: buildTransfer_def Let_def split: sum.splits)

lemma buildTransfer_amount_ok:
  assumes "amount req = Some a" "\<not> isNaN (parseFloat a)" "\<not> leZero (parseFloat a)"
  shows "buildTransfer rpc mint req \<noteq> Inr (Inl (Response 400 (ErrorBody ''Invalid amount'' None)))"
  using assms by (auto simp: buildTransfer_def Let_def split: sum.splits)

lemma BigInt_transferAmount:
  assumes "BigInt (transferAmount p) = Inr n"
  shows "\<exists>x y. p = Fin x \<and> Number_of (x * 10 ^ 6) = Fin y \<and> n = \<lfloor>y\<rfloor>"
  using assms
  by (cases p; cases "Number_of (case p of Fin v \<Rightarrow> v * 10 ^ 6 | _ \<Rightarrow> 0)")
     (auto simp: BigInt_def transferAmount_def timesConst_def Math_floor_def split: if_splits)

text \<open>The route on the sample ledgers, for an amount with a known value.\<close>

lemma sample_build:
  assumes "parseFloat a = Fin x" "0 < x" "transferAmount (Fin x) = Fin (of_int n)" "a \<noteq> []"
  shows "buildTransfer ledgerWithAccounts ''mint'' (sampleRequest a) =
           Inr (Inr \<lparr>payerKey = ''alice'', recentBlockhash = ''blockhash'',
                     instructions = [Transfer ''ata-alice'' ''ata-bob'' ''alice'' (writeU64 n)]\<rparr>)"
    and "buildTransfer ledgerWithoutAccounts ''mint'' (sampleRequest a) =
           Inr (Inr \<lparr>payerKey = ''alice'', recentBlockhash = ''blockhash'',
                     instructions = [CreateAssociatedTokenAccount ''alice'' ''ata-bob'' ''bob'' ''mint'',
                                     Transfer ''ata-alice'' ''ata-bob'' ''alice'' (writeU64 n)]\<rparr>)"
  using assms
  by (simp_all add: buildTransfer_def sampleRequest_def ledgerWithAccounts_def
      ledgerWithoutAccounts_def missing_def isNaN_def leZero_def createTransferInstruction_def
      BigInt_def)

lemma sample_POST:
  assumes "parseFloat a = Fin x" "0 < x" "transferAmount (Fin x) = Fin (of_int n)" "a \<noteq> []"
  shows "POST ledgerWithAccounts ''mint'' (sampleRequest a) =
           Response 200 (TransactionBody ''AQAB'' (''Transfer '' @ a @ '' USDC''))"
    and "POST ledgerWithoutAccounts ''mint'' (sampleRequest a) =
           Response 200 (TransactionBody ''AQAB'' (''Transfer '' @ a @ '' USDC''))"
  using sample_build [OF assms]
  by (simp_all add: POST_def sampleRequest_def ledgerWithAccounts_def ledgerWithoutAccounts_def)

section \<open>The transfer route: theorems\<close>

text \<open>
  Claim C3. For every successful build, the sender is the fee payer; if the query for
  the recipient's derived token account fails (the account does not exist), the
  instructions are the create-account instruction, paid by the sender, followed by the
  transfer instruction; if the query succeeds (the account exists), the transfer
  instruction is the only one.
\<close>

theorem instruction_sequence:
  assumes "POST rpc mint req = Response 200 b"
  shows "\<exists>m sender recipient usdcMint src dst n.
      buildTransfer rpc mint req = Inr (Inr m)
    \<and> PublicKey rpc (the (fromAddress req)) = Inr sender
    \<and> PublicKey rpc (the (toAddress req)) = Inr recipient
    \<and> PublicKey rpc mint = Inr usdcMint
    \<and> getAssociatedTokenAddress rpc usdcMint sender = Inr src
    \<and> getAssociatedTokenAddress rpc usdcMint recipient = Inr dst
    \<and> payerKey m = sender
    \<and> ((\<exists>e. getAccount rpc dst = Inl e) \<longrightarrow>
          instructions m = [CreateAssociatedTokenAccount sender dst recipient usdcMint,
                            Transfer src dst sender n])
    \<and> ((\<exists>amt. getAccount rpc dst = Inr amt) \<longrightarrow>
          instructions m = [Transfer src dst sender n])"
proof -
  from POST_200 [OF assms] obtain m where m: "buildTransfer rpc mint req = Inr (Inr m)"
    by blast
  from buildTransfer_message [OF m] show ?thesis using m by (auto split: if_splits)
qed

theorem instruction_sequence_witness:
  "buildTransfer ledgerWithoutAccounts ''mint'' (sampleRequest ''1.00'') =
     Inr (Inr \<lparr>payerKey = ''alice'', recentBlockhash = ''blockhash'',
               instructions = [CreateAssociatedTokenAccount ''alice'' ''ata-bob'' ''bob'' ''mint'',
                               Transfer ''ata-alice'' ''ata-bob'' ''alice'' 1000000]\<rparr>)
   \<and> buildTransfer ledgerWithAccounts ''mint'' (sampleRequest ''1.00'') =
     Inr (Inr \<lparr>payerKey = ''alice'', recentBlockhash = ''blockhash'',
               instructions = [Transfer ''ata-alice'' ''ata-bob'' ''alice'' 1000000]\<rparr>)"
proof -
  have a: "POST ledgerWithAccounts ''mint'' (sampleRequest ''1.00'') =
           Response 200 (TransactionBody ''AQAB'' (''Transfer '' @ ''1.00'' @ '' USDC''))"
    by (rule sample_POST(1) [OF parseFloat_100 _ transferAmount_1]) simp_all
  have b: "POST ledgerWithoutAccounts ''mint'' (sampleRequest ''1.00'') =
           Response 200 (TransactionBody ''AQAB'' (''Transfer '' @ ''1.00'' @ '' USDC''))"
    by (rule sample_POST(2) [OF parseFloat_100 _ transferAmount_1]) simp_all
  show ?thesis
    using instruction_sequence [OF a] instruction_sequence [OF b]
      sample_build [OF parseFloat_100 _ transferAmount_1]
    by simp
qed

lemma parseFloat_Infinity: "parseFloat ''Infinity'' = PosInf"
  by (simp add: parse_defs)

text \<open>An infinite amount passes the amount check and fails where the instruction is made.\<close>

lemma infinite_amount_no_message:
  assumes "amount req = Some a" "parseFloat a = PosInf"
  shows "buildTransfer rpc mint req \<noteq> Inr (Inr m)"
proof
  assume "buildTransfer rpc mint req = Inr (Inr m)"
  from buildTransfer_message [OF this] assms
  show False by (auto simp: transferAmount_def timesConst_def Math_floor_def BigInt_def)
qed

lemma infinite_amount_500:
  assumes "amount req = Some a" "parseFloat a = PosInf"
    and "fromAddress req = Some f" "f \<noteq> []" "toAddress req = Some t" "t \<noteq> []" "mint \<noteq> []"
    and "PublicKey rpc f = Inr sender" "PublicKey rpc t = Inr recipient"
  shows "\<exists>e. POST rpc mint req =
           Response 500 (ErrorBody ''Failed to create transfer transaction'' (Some e))"
proof -
  have a: "a \<noteq> []" using assms(2) by (auto simp: parse_defs)
  have "\<exists>e. buildTransfer rpc mint req = Inl e"
    using assms a
    by (auto simp: buildTransfer_def missing_def isNaN_def leZero_def Let_def
        createTransferInstruction_def transferAmount_def timesConst_def Math_floor_def BigInt_def
        split: sum.splits)
  then show ?thesis by (auto simp: POST_def)
qed

text \<open>
  Claim C6, as the code has it. For every amount string that does not denote a positive
  number, the build fails with HTTP 400 and builds no transaction: after leading white
  space and an optional sign, such a string begins with neither a decimal literal nor
  \<open>Infinity\<close> (as \<open>abc\<close>), or it begins with \<open>-Infinity\<close>, or its leading literal is
  zero, negative or rounds to zero (as \<open>0\<close>, \<open>-1\<close> and \<open>1e-400\<close>). Every other amount
  string passes the amount check. One that begins with a positive number is read as
  that number, whatever follows: \<open>1.5abc\<close> is 1.5. One whose number is infinite (as
  \<open>Infinity\<close>) gives no transaction either, but never the 400 of the amount check:
  with valid addresses and a configured mint the build ends in HTTP 500.
\<close>

theorem amount_validation:
  assumes "amount req = Some a"
  shows "(notPositiveAmount a \<longrightarrow>
            (\<exists>e. POST rpc mint req = Response 400 (ErrorBody e None)) \<and>
            (\<forall>m. buildTransfer rpc mint req \<noteq> Inr (Inr m)))
       \<and> (\<not> notPositiveAmount a \<longrightarrow>
            POST rpc mint req \<noteq> Response 400 (ErrorBody ''Invalid amount'' None))
       \<and> (parseFloat a = PosInf \<longrightarrow>
            \<not> notPositiveAmount a \<and>
            (\<forall>b. POST rpc mint req \<noteq> Response 200 b) \<and>
            (fromAddress req = Some f \<and> f \<noteq> [] \<and> toAddress req = Some t \<and> t \<noteq> [] \<and>
             mint \<noteq> [] \<and> PublicKey rpc f = Inr sender \<and> PublicKey rpc t = Inr recipient \<longrightarrow>
             (\<exists>e. POST rpc mint req =
                Response 500 (ErrorBody ''Failed to create transfer transaction'' (Some e)))))"
proof (intro conjI impI allI)
  assume "notPositiveAmount a"
  then have "isNaN (parseFloat a) \<or> leZero (parseFloat a)" by (simp add: amount_check_iff)
  from buildTransfer_invalid_amount [OF assms this]
  obtain e where e: "buildTransfer rpc mint req = Inr (Inl (Response 400 (ErrorBody e None)))"
    by blast
  then show "\<exists>e. POST rpc mint req = Response 400 (ErrorBody e None)"
    using POST_early by blast
  fix m
  show "buildTransfer rpc mint req \<noteq> Inr (Inr m)" using e by simp
next
  assume "\<not> notPositiveAmount a"
  then have "\<not> isNaN (parseFloat a)" "\<not> leZero (parseFloat a)"
    by (simp_all add: amount_check_iff [symmetric])
  from buildTransfer_amount_ok [OF assms this]
  show "POST rpc mint req \<noteq> Response 400 (ErrorBody ''Invalid amount'' None)"
    using POST_400 by blast
next
  assume inf: "parseFloat a = PosInf"
  then show "\<not> notPositiveAmount a"
    by (simp add: amount_check_iff [symmetric] isNaN_def leZero_def)
  fix b
  show "POST rpc mint req \<noteq> Response 200 b"
    using POST_200 [of rpc mint req b] infinite_amount_no_message [OF assms inf] by blast
next
  assume inf: "parseFloat a = PosInf"
    and h: "fromAddress req = Some f \<and> f \<noteq> [] \<and> toAddress req = Some t \<and> t \<noteq> [] \<and>
             mint \<noteq> [] \<and> PublicKey rpc f = Inr sender \<and> PublicKey rpc t = Inr recipient"
  then show "\<exists>e. POST rpc mint req =
                Response 500 (ErrorBody ''Failed to create transfer transaction'' (Some e))"
    using infinite_amount_500 [OF assms inf] by blast
qed

theorem amount_validation_witness:
  "(\<exists>e. POST ledgerWithAccounts ''mint'' (sampleRequest ''abc'') = Response 400 (ErrorBody e None))
   \<and> (\<exists>e. POST ledgerWithAccounts ''mint'' (sampleRequest ''0'') = Response 400 (ErrorBody e None))
   \<and> (\<exists>e. POST ledgerWithAccounts ''mint'' (sampleRequest ''-1'') = Response 400 (ErrorBody e None))
   \<and> (\<exists>e. POST ledgerWithAccounts ''mint'' (sampleRequest ''1e-400'') = Response 400 (ErrorBody e None))
   \<and> POST ledgerWithAccounts ''mint'' (sampleRequest ''1.5abc'') \<noteq>
       Response 400 (ErrorBody ''Invalid amount'' None)
   \<and> (\<exists>e. POST ledgerWithAccounts ''mint'' (sampleRequest ''Infinity'') =
         Response 500 (ErrorBody ''Failed to create transfer transaction'' (Some e)))"
  using amount_validation [of "sampleRequest ''abc''" "''abc''" ledgerWithAccounts "''mint''"]
    amount_validation [of "sampleRequest ''0''" "''0''" ledgerWithAccounts "''mint''"]
    amount_validation [of "sampleRequest ''-1''" "''-1''" ledgerWithAccounts "''mint''"]
    amount_validation [of "sampleRequest ''1e-400''" "''1e-400''" ledgerWithAccounts "''mint''"]
    amount_validation [of "sampleRequest ''1.5abc''" "''1.5abc''" ledgerWithAccounts "''mint''"]
    amount_validation [of "sampleRequest ''Infinity''" "''Infinity''" ledgerWithAccounts "''mint''"
      "''alice''" "''bob''" "''alice''" "''bob''"]
  by (simp add: sampleRequest_def notPositive_abc notPositive_0 notPositive_minus1
      notPositive_underflow positive_15abc parseFloat_Infinity ledgerWithAccounts_def
      ledgerWithoutAccounts_def)

text \<open>
  Claim C6 as stated fails: the amount \<open>1.5abc\<close> is not a decimal number, and the
  build succeeds.
\<close>

theorem trailing_characters_accepted:
  "POST ledgerWithAccounts ''mint'' (sampleRequest ''1.5abc'') =
     Response 200 (TransactionBody ''AQAB'' ''Transfer 1.5abc USDC'')"
  using sample_POST(1) [OF parseFloat_15abc _ _ , of 1500000] by (simp add: transferAmount_15)

text \<open>
  Claim C1, as the code has it. The amount check looks at the parsed amount, not at
  the converted one: an amount that is positive and converts to zero smallest units
  (as \<open>0.0000001\<close> does) is not rejected as an invalid amount. Every message built
  for it ends with a transfer instruction of 0 units, and when the addresses are valid
  and the ledger answers, the build succeeds with HTTP 200.
\<close>

theorem zero_units_not_rejected:
  assumes "amount req = Some a" "\<not> isNaN (parseFloat a)" "\<not> leZero (parseFloat a)"
    and "transferAmount (parseFloat a) = Fin 0"
  shows "POST rpc mint req \<noteq> Response 400 (ErrorBody ''Invalid amount'' None)
    \<and> (\<forall>m. buildTransfer rpc mint req = Inr (Inr m) \<longrightarrow>
          (\<exists>src dst. last (instructions m) = Transfer src dst (payerKey m) 0))
    \<and> (fromAddress req = Some f \<and> f \<noteq> [] \<and> toAddress req = Some t \<and> t \<noteq> [] \<and> mint \<noteq> [] \<and>
        PublicKey rpc f = Inr sender \<and> PublicKey rpc t = Inr recipient \<and>
        PublicKey rpc mint = Inr usdcMint \<and>
        getAssociatedTokenAddress rpc usdcMint sender = Inr src \<and>
        getAssociatedTokenAddress rpc usdcMint recipient = Inr dst \<and>
        getLatestBlockhash rpc = Inr blockhash \<and> (\<forall>m. \<exists>s. serialize rpc m = Inr s) \<longrightarrow>
        (\<exists>s. POST rpc mint req = Response 200 (TransactionBody s (''Transfer '' @ a @ '' USDC''))))"
proof (intro conjI allI impI)
  show "POST rpc mint req \<noteq> Response 400 (ErrorBody ''Invalid amount'' None)"
    using buildTransfer_amount_ok [OF assms(1-3)] POST_400 by blast
next
  fix m
  assume m: "buildTransfer rpc mint req = Inr (Inr m)"
  from buildTransfer_message [OF m] assms(1,4)
  show "\<exists>src dst. last (instructions m) = Transfer src dst (payerKey m) 0"
    by (auto simp: BigInt_def split: if_splits)
next
  assume h: "fromAddress req = Some f \<and> f \<noteq> [] \<and> toAddress req = Some t \<and> t \<noteq> [] \<and> mint \<noteq> [] \<and>
        PublicKey rpc f = Inr sender \<and> PublicKey rpc t = Inr recipient \<and>
        PublicKey rpc mint = Inr usdcMint \<and>
        getAssociatedTokenAddress rpc usdcMint sender = Inr src \<and>
        getAssociatedTokenAddress rpc usdcMint recipient = Inr dst \<and>
        getLatestBlockhash rpc = Inr blockhash \<and> (\<forall>m. \<exists>s. serialize rpc m = Inr s)"
  have a: "a \<noteq> []" using assms(2) by (auto simp: isNaN_def parse_defs)
  obtain m where m: "buildTransfer rpc mint req = Inr (Inr m)"
    using h assms a
    by (auto simp: buildTransfer_def missing_def createTransferInstruction_def BigInt_def Let_def)
  from h obtain s where "serialize rpc m = Inr s" by blast
  then show "\<exists>s. POST rpc mint req = Response 200 (TransactionBody s (''Transfer '' @ a @ '' USDC''))"
    using m assms(1) by (simp add: POST_def)
qed

theorem zero_units_not_rejected_witness:
  "POST ledgerWithoutAccounts ''mint'' (sampleRequest ''0.0000001'') \<noteq>
     Response 400 (ErrorBody ''Invalid amount'' None)
   \<and> (\<exists>s. POST ledgerWithoutAccounts ''mint'' (sampleRequest ''0.0000001'') =
         Response 200 (TransactionBody s ''Transfer 0.0000001 USDC''))"
proof -
  have a: "amount (sampleRequest ''0.0000001'') = Some ''0.0000001''"
    by (simp add: sampleRequest_def)
  have n: "\<not> isNaN (parseFloat ''0.0000001'')" by (simp add: parseFloat_tiny isNaN_def)
  have p: "\<not> leZero (parseFloat ''0.0000001'')" by (simp add: parseFloat_tiny leZero_def)
  have z: "transferAmount (parseFloat ''0.0000001'') = Fin 0"
    by (simp add: parseFloat_tiny transferAmount_tiny)
  show ?thesis
    using zero_units_not_rejected [OF a n p z, of ledgerWithoutAccounts "''mint''" "''alice''"
        "''bob''" "''alice''" "''bob''" "''mint''" "''ata-alice''" "''ata-bob''" "''blockhash''"]
    by (simp add: sampleRequest_def ledgerWithoutAccounts_def)
qed

text \<open>
  Claim C1 as stated fails: the amount \<open>0.0000001\<close> has the value \<open>10^-7\<close>, whose
  product with \<open>10^6\<close> has floor 0, and the build succeeds with a transfer of 0 units.
\<close>

theorem zero_units_build_succeeds:
  "mathValue ''0.0000001'' = Some (1 / 10 ^ 7) \<and> \<lfloor>(1 / 10 ^ 7 :: rat) * 10 ^ 6\<rfloor> = 0
   \<and> POST ledgerWithAccounts ''mint'' (sampleRequest ''0.0000001'') =
     Response 200 (TransactionBody ''AQAB'' ''Transfer 0.0000001 USDC'')
   \<and> buildTransfer ledgerWithAccounts ''mint'' (sampleRequest ''0.0000001'') =
     Inr (Inr \<lparr>payerKey = ''alice'', recentBlockhash = ''blockhash'',
               instructions = [Transfer ''ata-alice'' ''ata-bob'' ''alice'' 0]\<rparr>)"
proof -
  have "\<lfloor>(1 / 10 ^ 7 :: rat) * 10 ^ 6\<rfloor> = 0" by (simp add: floor_eq_iff)
  then show ?thesis
    using sample_POST(1) [OF parseFloat_tiny _ _ , of 0]
      sample_build(1) [OF parseFloat_tiny _ _ , of 0]
    by (simp add: transferAmount_tiny mathValue_tiny)
qed

lemma Number_of_nonneg:
  assumes "0 \<le> v" "Number_of v = Fin y"
  shows "0 \<le> y"
proof -
  have "0 \<le> of_int (roundHalfEven (\<bar>v\<bar> / q)) * q" if "0 < q" for q :: rat
    using that roundHalfEven_nonneg [of "\<bar>v\<bar> / q"] by simp
  from this [OF pow2_pos] assms show ?thesis
    by (auto simp: Number_of_def Let_def split: if_splits)
qed

text \<open>
  Claim C7, as the code has it. For every amount for which a message is built, with
  \<open>v\<close> the decimal value of the amount string, \<open>x\<close> the binary64 value nearest to
  \<open>v\<close> and \<open>y\<close> the binary64 value nearest to \<open>x * 10^6\<close>, the transfer instruction
  carries \<open>floor y\<close> smallest units whenever \<open>floor y\<close> is below \<open>2^64\<close>, the size of
  the instruction's amount field. That is \<open>floor (v * 10^6)\<close> whenever neither
  rounding changes the value, as for \<open>1.00\<close> (1,000,000) and \<open>2.50\<close> (2,500,000).
\<close>

theorem transfer_amount_value:
  assumes "buildTransfer rpc mint req = Inr (Inr m)" "amount req = Some a"
  shows "\<exists>v x y src dst w.
      mathValue a = Some v \<and> Number_of v = Fin x \<and> Number_of (x * 10 ^ 6) = Fin y
    \<and> last (instructions m) = Transfer src dst (payerKey m) w
    \<and> 0 \<le> \<lfloor>y\<rfloor>
    \<and> (\<lfloor>y\<rfloor> < 2 ^ 64 \<longrightarrow> uint w = \<lfloor>y\<rfloor>)
    \<and> (x = v \<and> y = v * 10 ^ 6 \<and> \<lfloor>v * 10 ^ 6\<rfloor> < 2 ^ 64 \<longrightarrow> uint w = \<lfloor>v * 10 ^ 6\<rfloor>)"
proof -
  from buildTransfer_message [OF assms(1)] obtain sender recipient usdcMint src dst n where
    n: "BigInt (transferAmount (parseFloat (the (amount req)))) = Inr n"
    and pos: "\<not> leZero (parseFloat (the (amount req)))"
    and p: "payerKey m = sender"
    and i: "instructions m =
         (if (\<exists>e. getAccount rpc dst = Inl e)
          then [CreateAssociatedTokenAccount sender dst recipient usdcMint,
                Transfer src dst sender (writeU64 n)]
          else [Transfer src dst sender (writeU64 n)])"
    by blast
  from BigInt_transferAmount [OF n] assms(2) obtain x y where
    x: "parseFloat a = Fin x" and y: "Number_of (x * 10 ^ 6) = Fin y" and ny: "n = \<lfloor>y\<rfloor>"
    by auto
  from parseFloat_Fin [OF x] obtain v where v: "mathValue a = Some v" "Number_of v = Fin x"
    by blast
  have "0 < x" using pos x assms(2) by (simp add: leZero_def)
  then have "0 \<le> y" using Number_of_nonneg [OF _ y] by simp
  then have n0: "0 \<le> \<lfloor>y\<rfloor>" by simp
  have l: "last (instructions m) = Transfer src dst (payerKey m) (writeU64 \<lfloor>y\<rfloor>)"
    using i p ny by simp
  have w: "\<lfloor>y\<rfloor> < 2 ^ 64 \<longrightarrow> uint (writeU64 \<lfloor>y\<rfloor>) = \<lfloor>y\<rfloor>"
    using n0 writeU64_small by blast
  show ?thesis
    using v y l n0 w by blast
qed

theorem transfer_amount_value_witness:
  "buildTransfer ledgerWithAccounts ''mint'' (sampleRequest ''1.00'') =
     Inr (Inr \<lparr>payerKey = ''alice'', recentBlockhash = ''blockhash'',
               instructions = [Transfer ''ata-alice'' ''ata-bob'' ''alice'' 1000000]\<rparr>)
   \<and> buildTransfer ledgerWithAccounts ''mint'' (sampleRequest ''2.50'') =
     Inr (Inr \<lparr>payerKey = ''alice'', recentBlockhash = ''blockhash'',
               instructions = [Transfer ''ata-alice'' ''ata-bob'' ''alice'' 2500000]\<rparr>)
   \<and> (\<exists>w. last [Transfer ''ata-alice'' ''ata-bob'' ''alice'' 1000000] =
          Transfer ''ata-alice'' ''ata-bob'' ''alice'' w \<and> uint w = 1000000)"
proof -
  have b1: "buildTransfer ledgerWithAccounts ''mint'' (sampleRequest ''1.00'') =
     Inr (Inr \<lparr>payerKey = ''alice'', recentBlockhash = ''blockhash'',
               instructions = [Transfer ''ata-alice'' ''ata-bob'' ''alice'' 1000000]\<rparr>)"
    using sample_build(1) [OF parseFloat_100 _ transferAmount_1] by simp
  have b2: "buildTransfer ledgerWithAccounts ''mint'' (sampleRequest ''2.50'') =
     Inr (Inr \<lparr>payerKey = ''alice'', recentBlockhash = ''blockhash'',
               instructions = [Transfer ''ata-alice'' ''ata-bob'' ''alice'' 2500000]\<rparr>)"
    using sample_build(1) [OF parseFloat_250 _ transferAmount_250] by simp
  have a: "amount (sampleRequest ''1.00'') = Some ''1.00''" by (simp add: sampleRequest_def)
  show ?thesis
    using transfer_amount_value [OF b1 a] b1 b2
    by (simp add: mathValue_100 Number_of_1 Number_of_million)
qed

text \<open>
  Claim C7 as stated fails: the amount \<open>1.005\<close> has the value \<open>1005/1000\<close>, whose
  product with \<open>10^6\<close> has floor 1,005,000, and the transfer instruction carries
  1,004,999 units.
\<close>

theorem transfer_amount_rounding:
  "mathValue ''1.005'' = Some (1005 / 1000) \<and> \<lfloor>(1005 / 1000 :: rat) * 10 ^ 6\<rfloor> = 1005000
   \<and> buildTransfer ledgerWithAccounts ''mint'' (sampleRequest ''1.005'') =
     Inr (Inr \<lparr>payerKey = ''alice'', recentBlockhash = ''blockhash'',
               instructions = [Transfer ''ata-alice'' ''ata-bob'' ''alice'' 1004999]\<rparr>)"
  using sample_build(1) [OF parseFloat_1005 _ _ , of 1004999]
  by (simp add: transferAmount_1005 mathValue_1005)

text \<open>
  From \<open>2^64\<close> units on the amount field holds another number: for the amount
  \<open>1e14\<close> the route computes \<open>10^20\<close> units, and the instruction carries
  6,250,000,000,000,000,000.
\<close>

lemma mathValue_1e14: "mathValue ''1e14'' = Some 100000000000000"
  by (simp add: parse_defs)

lemma Number_of_1e14: "Number_of 100000000000000 = Fin 100000000000000"
  using Number_of_normal [of 46 100000000000000]
  by (simp add: pow2_def roundHalfEven_def Let_def)

lemma parseFloat_1e14: "parseFloat ''1e14'' = Fin 100000000000000"
  by (simp add: parseFloat_cases mathValue_1e14 Number_of_1e14) (simp add: parse_defs)

lemma transferAmount_1e14:
  "transferAmount (Fin 100000000000000) = Fin (of_int 100000000000000000000)"
  using Number_of_normal [of 66 "100000000000000 * 10 ^ 6"]
  by (simp add: transferAmount_def timesConst_def Math_floor_def pow2_def roundHalfEven_def Let_def)

lemma writeU64_1e20: "writeU64 100000000000000000000 = 6250000000000000000"
proof -
  have "u64Digits 100000000000000000000 = u64Digits 6250000000000000000"
    by (subst u64Digits.simps) simp
  also have "\<dots> = 6250000000000000000" by (simp add: u64Digits_small)
  finally show ?thesis by (simp add: writeU64_def)
qed

lemma large_amount_truncated:
  "buildTransfer ledgerWithAccounts ''mint'' (sampleRequest ''1e14'') =
     Inr (Inr \<lparr>payerKey = ''alice'', recentBlockhash = ''blockhash'',
               instructions = [Transfer ''ata-alice'' ''ata-bob'' ''alice'' 6250000000000000000]\<rparr>)"
  using sample_build(1) [OF parseFloat_1e14 _ transferAmount_1e14]
  by (simp add: writeU64_1e20 del: writeU64_numeral)

section \<open>The balance refresh: theorems\<close>

lemma zero_fixed: "parseFloat (toFixed (Fin 0) 2) = Fin 0"
  by code_simp

lemma GET_status:
  "(\<exists>s u. GET rpc mint address = Response 200 (BalancesBody s u))
   \<or> (\<exists>e m. GET rpc mint address = Response 400 (ErrorBody e m))
   \<or> (\<exists>e m. GET rpc mint address = Response 500 (ErrorBody e m))"
  by (simp add: GET_def Let_def split: sum.splits)

lemma fetchBalances_not_ok: "\<not> ok r \<Longrightarrow> fetchBalances (Some r) = zeroBalances"
  by (simp add: fetchBalances_def fetchBalancesTry_def zeroBalances_def)

text \<open>
  Claim C8. For every address, the balance refresh returns a snapshot: when the fetch
  rejects, the response is not ok, or its body cannot be read, the snapshot is the zero
  one; when the route answers anything but its balances (every failure inside the
  route), the refresh gives the zero snapshot; and when the account's token sub-account
  is missing, the route answers 200 with a token balance of 0 and the refreshed token
  balance is 0.
\<close>

theorem balance_refresh:
  "fetchBalances None = zeroBalances
   \<and> (\<not> ok r \<or> json r = None \<or> json r = Some JNull \<longrightarrow> fetchBalances (Some r) = zeroBalances)
   \<and> ((\<forall>s u. GET rpc mint address \<noteq> Response 200 (BalancesBody s u)) \<longrightarrow>
        refresh rpc mint address = zeroBalances)
   \<and> (a \<noteq> [] \<and> mint \<noteq> [] \<and> PublicKey rpc a = Inr pk \<and> PublicKey rpc mint = Inr usdcMint \<and>
        getBalance rpc pk = Inr lamports \<and>
        getAssociatedTokenAddress rpc usdcMint pk = Inr tokenAccount \<and>
        getAccount rpc tokenAccount = Inl e \<longrightarrow>
        (\<exists>s. GET rpc mint (Some a) = Response 200 (BalancesBody s (Fin 0))) \<and>
        usdcBalance (refresh rpc mint (Some a)) = JNumber (Fin 0))"
proof (intro conjI impI)
  show "fetchBalances None = zeroBalances"
    by (simp add: fetchBalances_def fetchBalancesTry_def zeroBalances_def)
  show "fetchBalances (Some r) = zeroBalances"
    if "\<not> ok r \<or> json r = None \<or> json r = Some JNull"
    using that by (auto simp: fetchBalances_def fetchBalancesTry_def zeroBalances_def getProp_def)
  show "refresh rpc mint address = zeroBalances"
    if "\<forall>s u. GET rpc mint address \<noteq> Response 200 (BalancesBody s u)"
  proof -
    from that GET_status [of rpc mint address]
    have "\<not> ok (httpOf (GET rpc mint address))"
      by (auto simp: httpOf_def ok_def)
    then show ?thesis unfolding refresh_def by (rule fetchBalances_not_ok)
  qed
  assume h: "a \<noteq> [] \<and> mint \<noteq> [] \<and> PublicKey rpc a = Inr pk \<and> PublicKey rpc mint = Inr usdcMint \<and>
        getBalance rpc pk = Inr lamports \<and>
        getAssociatedTokenAddress rpc usdcMint pk = Inr tokenAccount \<and>
        getAccount rpc tokenAccount = Inl e"
  then have G: "GET rpc mint (Some a) = Response 200 (BalancesBody
      (parseFloat (toFixed (divideConst (Number_of (of_nat (unat lamports))) LAMPORTS_PER_SOL) 3))
      (Fin 0))"
    by (simp add: GET_def missing_def zero_fixed)
  then show "\<exists>s. GET rpc mint (Some a) = Response 200 (BalancesBody s (Fin 0))" by blast
  show "usdcBalance (refresh rpc mint (Some a)) = JNumber (Fin 0)"
    by (simp add: refresh_def G httpOf_def jsonOfBody_def fetchBalances_def fetchBalancesTry_def
        ok_def getProp_def jsonNumber_def orElse_def truthy_def split: number.splits)
qed

theorem balance_refresh_witness:
  "usdcBalance (refresh ledgerWithoutAccounts ''mint'' (Some ''alice'')) = JNumber (Fin 0)
   \<and> refresh ledgerWithoutAccounts ''mint'' None = zeroBalances"
proof -
  have "\<forall>s u. GET ledgerWithoutAccounts ''mint'' None \<noteq> Response 200 (BalancesBody s u)"
    by (simp add: GET_def missing_def)
  then show ?thesis
    using balance_refresh [of _ ledgerWithoutAccounts "''mint''" None "''alice''" "''alice''"
        "''mint''" 2000000000 "''ata-alice''" "''TokenAccountNotFoundError''"]
    by (simp add: ledgerWithoutAccounts_def)
qed

end
